theory Spec2Isabelle
  imports Main "HOL-Library.Word" "HOL-Library.List_Lexorder"
begin

section \<open>JavaScript strings\<close>

text \<open>
  A JavaScript string is a sequence of UTF-16 code units; \<open>length\<close>, indexing and a
  regular expression without the \<open>u\<close> flag all work on code units. A string is
  therefore a list of 16-bit words. \<open>lit\<close> embeds an ASCII literal of the source.
\<close>

type_synonym jschar = "16 word"
type_synonym jsstring = "jschar list"

definition cu :: "char \<Rightarrow> jschar" where
  "cu c = of_nat (of_char c)"

definition lit :: "string \<Rightarrow> jsstring" where
  "lit s = map cu s"

text \<open>Truthiness of a value that is either \<open>undefined\<close>/\<open>null\<close> or a string:
  only a non-empty string is truthy. \<open>a || b\<close> on such values.\<close>

fun truthy :: "jsstring option \<Rightarrow> bool" where
  "truthy None = False"
| "truthy (Some s) = (s \<noteq> [])"

fun or_else :: "jsstring option \<Rightarrow> jsstring \<Rightarrow> jsstring" where
  "or_else None d = d"
| "or_else (Some s) d = (if s = [] then d else s)"

subsection \<open>Character classes and global replacement\<close>

definition in_range :: "jschar \<Rightarrow> char \<Rightarrow> char \<Rightarrow> bool" where
  "in_range c lo hi = (cu lo \<le> c \<and> c \<le> cu hi)"

text \<open>The class \<^verbatim>\<open>[a-zA-Z0-9_-]\<close> of \<^verbatim>\<open>server.js\<close> (upload handler and signing
  function) and the class \<^verbatim>\<open>[a-zA-Z0-9]\<close> of the Drive variant.\<close>

definition class_word_dash :: "jschar \<Rightarrow> bool" where
  "class_word_dash c =
     (in_range c CHR ''a'' CHR ''z'' \<or> in_range c CHR ''A'' CHR ''Z'' \<or>
      in_range c CHR ''0'' CHR ''9'' \<or> c = cu CHR ''_'' \<or> c = cu CHR ''-'')"

definition class_alnum :: "jschar \<Rightarrow> bool" where
  "class_alnum c =
     (in_range c CHR ''a'' CHR ''z'' \<or> in_range c CHR ''A'' CHR ''Z'' \<or>
      in_range c CHR ''0'' CHR ''9'')"

text \<open>\<^verbatim>\<open>s.replace(/[^...]/g, r)\<close>: scanning from the left, every code unit outside
  the class is replaced by the replacement string \<open>r\<close>, every other one is copied.
  (The replacement strings of the source contain no \<^verbatim>\<open>$\<close> pattern.)\<close>

fun replace_outside :: "(jschar \<Rightarrow> bool) \<Rightarrow> jsstring \<Rightarrow> jsstring \<Rightarrow> jsstring" where
  "replace_outside cls r [] = []"
| "replace_outside cls r (c # cs) =
     (if cls c then c # replace_outside cls r cs else r @ replace_outside cls r cs)"

text \<open>\<^verbatim>\<open>guestName.replace(/[^a-zA-Z0-9_-]/g, '_')\<close> (server.js, upload handler) and
  \<^verbatim>\<open>sanitize = (s) => (s || '').replace(/[^a-zA-Z0-9_-]/g, '_')\<close> (signing function).\<close>

definition sanitized :: "jsstring \<Rightarrow> jsstring" where
  "sanitized guestName = replace_outside class_word_dash (lit ''_'') guestName"

definition sanitize :: "jsstring option \<Rightarrow> jsstring" where
  "sanitize s = replace_outside class_word_dash (lit ''_'') (or_else s [])"

text \<open>\<^verbatim>\<open>guestName.replace(/[^a-zA-Z0-9]/g, "_")\<close> (Drive variant).\<close>

definition sanitizedName :: "jsstring \<Rightarrow> jsstring" where
  "sanitizedName guestName = replace_outside class_alnum (lit ''_'') guestName"

subsection \<open>Trimming\<close>

text \<open>\<^verbatim>\<open>String.prototype.trim\<close> removes the WhiteSpace and LineTerminator code units
  of ECMAScript from both ends.\<close>

definition is_white_space :: "jschar \<Rightarrow> bool" where
  "is_white_space c =
     (c \<in> set [0x0009, 0x000A, 0x000B, 0x000C, 0x000D, 0x0020, 0x00A0, 0x1680,
                0x2028, 0x2029, 0x202F, 0x205F, 0x3000, 0xFEFF]
      \<or> (0x2000 \<le> c \<and> c \<le> 0x200A))"

definition trim :: "jsstring \<Rightarrow> jsstring" where
  "trim s = rev (dropWhile is_white_space (rev (dropWhile is_white_space s)))"

subsection \<open>Numbers as strings\<close>

text \<open>Digits \<open>0..9\<close>, \<open>a..z\<close> as \<^verbatim>\<open>Number.prototype.toString\<close> prints them.\<close>

definition digit_char :: "nat \<Rightarrow> jschar" where
  "digit_char d = (if d < 10 then of_nat (48 + d) else of_nat (87 + d))"

text \<open>\<^verbatim>\<open>n.toString(radix)\<close> and \<^verbatim>\<open>`${n}`\<close> for a non-negative integer \<open>n\<close> of at
  most \<open>2^53\<close> (every value of \<^verbatim>\<open>Date.now()\<close> is): such an integer is a double,
  and JavaScript prints all its digits.\<close>

fun to_radix :: "nat \<Rightarrow> nat \<Rightarrow> jsstring" where
  "to_radix radix n =
     (if radix < 2 \<or> n < radix then [digit_char n]
      else to_radix radix (n div radix) @ [digit_char (n mod radix)])"

declare to_radix.simps [simp del]

text \<open>A JavaScript number as \<^verbatim>\<open>parseInt\<close> produces it. It is \<^verbatim>\<open>NaN\<close>, or an
  integer of magnitude at most \<open>2^53\<close> (\<open>Num\<close>: every such integer is a double), or
  the double nearest to an integer \<open>v\<close> beyond that range (\<open>Rounded v\<close>: a rounded
  value, or \<^verbatim>\<open>Infinity\<close>).\<close>

datatype jsnum = NaN | Num int | Rounded int

definition to_number :: "int \<Rightarrow> jsnum" where
  "to_number v = (if \<bar>v\<bar> \<le> 2 ^ 53 then Num v else Rounded v)"

text \<open>\<^verbatim>\<open>`${x}`\<close> for such a number. Up to \<open>2^53\<close> JavaScript prints the decimal
  numeral. Beyond, it prints the shortest digits that identify the rounded double,
  in exponent form from \<open>10^21\<close> on: that text is the parameter \<open>double_text\<close>, a
  function of the integer that was rounded (\<^verbatim>\<open>9007199254740992\<close> at
  \<open>9007199254740993\<close>, \<^verbatim>\<open>1e+21\<close> at \<open>10^21\<close>).\<close>

fun num_to_string :: "(int \<Rightarrow> jsstring) \<Rightarrow> jsnum \<Rightarrow> jsstring" where
  "num_to_string double_text NaN = lit ''NaN''"
| "num_to_string double_text (Num i) =
     (if \<bar>i\<bar> \<le> 2 ^ 53
      then (if i < 0 then lit ''-'' @ to_radix 10 (nat (- i)) else to_radix 10 (nat i))
      else double_text i)"
| "num_to_string double_text (Rounded v) = double_text v"

text \<open>\<^verbatim>\<open>parseInt(s, 10)\<close>: leading white space is skipped, then an optional sign,
  then the longest run of decimal digits; \<^verbatim>\<open>NaN\<close> when there is no digit, and
  otherwise the signed value of the digits as a JavaScript number.\<close>

definition is_digit :: "jschar \<Rightarrow> bool" where
  "is_digit c = in_range c CHR ''0'' CHR ''9''"

fun digits_value :: "nat \<Rightarrow> jsstring \<Rightarrow> nat" where
  "digits_value acc [] = acc"
| "digits_value acc (d # ds) = digits_value (acc * 10 + (unat d - 48)) ds"

definition parseInt10 :: "jsstring \<Rightarrow> jsnum" where
  "parseInt10 s =
     (let s1 = dropWhile is_white_space s;
          neg = (s1 \<noteq> [] \<and> hd s1 = cu CHR ''-'');
          s2 = (if s1 \<noteq> [] \<and> (hd s1 = cu CHR ''-'' \<or> hd s1 = cu CHR ''+'') then tl s1 else s1);
          ds = takeWhile is_digit s2
      in if ds = [] then NaN
         else if neg then to_number (- int (digits_value 0 ds))
         else to_number (int (digits_value 0 ds)))"

section \<open>Values shared by the handlers\<close>

text \<open>The object handed to \<^verbatim>\<open>res.json\<close> or \<^verbatim>\<open>JSON.stringify\<close>: the keys in the
  order of the object literal. A key whose value is \<^verbatim>\<open>undefined\<close> is dropped by
  \<^verbatim>\<open>JSON.stringify\<close>, so it is absent from the list.\<close>

datatype json = JNull | JBool bool | JNum int | JStr jsstring | JObj "(string \<times> json) list"

record response =
  statusCode :: nat
  body :: json

text \<open>\<^verbatim>\<open>process.env\<close>: each variable is unset or a string.\<close>

record environment =
  CLOUDINARY_CLOUD_NAME :: "jsstring option"
  CLOUDINARY_API_KEY :: "jsstring option"
  CLOUDINARY_API_SECRET :: "jsstring option"
  CLOUDINARY_FOLDER :: "jsstring option"
  MAX_FILE_SIZE_MB_var :: "jsstring option"

text \<open>A thrown JavaScript value, as far as the handlers read it: the properties
  \<^verbatim>\<open>name\<close>, \<^verbatim>\<open>code\<close>, \<^verbatim>\<open>message\<close>, \<^verbatim>\<open>stack\<close> (each possibly undefined) and
  \<^verbatim>\<open>String(err)\<close>.\<close>

record js_error =
  err_name :: "jsstring option"
  err_code :: "jsstring option"
  err_message :: "jsstring option"
  err_stack :: "jsstring option"
  err_string :: jsstring

section \<open>The signing function\<close>

text \<open>The Netlify event: \<^verbatim>\<open>queryStringParameters\<close> is \<^verbatim>\<open>null\<close> or an object from
  parameter names to strings.\<close>

record event =
  queryStringParameters :: "(jsstring \<times> jsstring) list option"

text \<open>\<^verbatim>\<open>const BASE_FOLDER = env.CLOUDINARY_FOLDER || 'wedding_photos'\<close>; the upload
  handler computes its \<^verbatim>\<open>mainFolder\<close> by the same expression.\<close>

definition BASE_FOLDER :: "environment \<Rightarrow> jsstring" where
  "BASE_FOLDER env = or_else (CLOUDINARY_FOLDER env) (lit ''wedding_photos'')"

text \<open>\<^verbatim>\<open>const qs = event.queryStringParameters || {};
  const guestName = qs.guestName ? String(qs.guestName).trim() : ''\<close>\<close>

definition qs_guestName :: "event \<Rightarrow> jsstring option" where
  "qs_guestName ev =
     map_of (case queryStringParameters ev of None \<Rightarrow> [] | Some q \<Rightarrow> q) (lit ''guestName'')"

definition sign_guestName :: "event \<Rightarrow> jsstring" where
  "sign_guestName ev =
     (if truthy (qs_guestName ev) then trim (the (qs_guestName ev)) else [])"

text \<open>\<^verbatim>\<open>const sanitized = sanitize(guestName) || 'anonymous'\<close>\<close>

definition sign_sanitized :: "jsstring \<Rightarrow> jsstring" where
  "sign_sanitized guestName = or_else (Some (sanitize (Some guestName))) (lit ''anonymous'')"

text \<open>\<^verbatim>\<open>const folder = `${BASE_FOLDER}/${sanitized}`\<close>\<close>

definition sign_folder :: "environment \<Rightarrow> event \<Rightarrow> jsstring" where
  "sign_folder env ev = BASE_FOLDER env @ lit ''/'' @ sign_sanitized (sign_guestName ev)"

text \<open>\<^verbatim>\<open>const timestamp = Math.floor(Date.now() / 1000)\<close>, with \<open>now\<close> the value
  of \<^verbatim>\<open>Date.now()\<close> in milliseconds.\<close>

definition timestamp_of :: "nat \<Rightarrow> nat" where
  "timestamp_of now = now div 1000"

text \<open>\<^verbatim>\<open>const toSign = `folder=${folder}&timestamp=${timestamp}`\<close>\<close>

definition toSign :: "jsstring \<Rightarrow> nat \<Rightarrow> jsstring" where
  "toSign folder timestamp =
     lit ''folder='' @ folder @ lit ''&timestamp='' @ to_radix 10 timestamp"

text \<open>\<^verbatim>\<open>crypto.createHash('sha1').update(toSign + API_SECRET).digest('hex')\<close>. The
  hash is Node's; it is the parameter \<open>sha1_hex\<close>, a function from the hashed string
  to the hexadecimal digest.\<close>

definition signature_of :: "(jsstring \<Rightarrow> jsstring) \<Rightarrow> jsstring \<Rightarrow> nat \<Rightarrow> jsstring \<Rightarrow> jsstring" where
  "signature_of sha1_hex folder timestamp API_SECRET =
     sha1_hex (toSign folder timestamp @ API_SECRET)"

text \<open>\<^verbatim>\<open>exports.handler\<close>. Nothing in its \<^verbatim>\<open>try\<close> block throws on an event of the
  shape above, so the \<^verbatim>\<open>catch\<close> branch has no run in the model.\<close>

definition handler :: "(jsstring \<Rightarrow> jsstring) \<Rightarrow> environment \<Rightarrow> nat \<Rightarrow> event \<Rightarrow> response" where
  "handler sha1_hex env now ev =
     (if \<not> truthy (CLOUDINARY_CLOUD_NAME env) \<or> \<not> truthy (CLOUDINARY_API_KEY env)
         \<or> \<not> truthy (CLOUDINARY_API_SECRET env)
      then \<lparr>statusCode = 500,
            body = JObj [(''error'',
              JStr (lit ''Cloudinary no configurado en el servidor (faltan env vars)''))]\<rparr>
      else
        let folder = sign_folder env ev;
            timestamp = timestamp_of now;
            signature = signature_of sha1_hex folder timestamp (the (CLOUDINARY_API_SECRET env))
        in \<lparr>statusCode = 200,
            body = JObj [(''api_key'', JStr (the (CLOUDINARY_API_KEY env))),
                         (''timestamp'', JNum (int timestamp)),
                         (''signature'', JStr signature),
                         (''cloud_name'', JStr (the (CLOUDINARY_CLOUD_NAME env))),
                         (''folder'', JStr folder)]\<rparr>)"

section \<open>The local disk and the effects of a request\<close>

text \<open>The disk as the handlers see it: the paths that exist, the paths whose removal
  the operating system refuses, and the error (if any) with which appending to
  \<^verbatim>\<open>upload_errors.log\<close> fails.\<close>

record filesystem =
  files :: "jsstring set"
  locked :: "jsstring set"
  append_error :: "js_error option"

datatype fs_error = ENOENT | EPERM

text \<open>\<^verbatim>\<open>fs.unlinkSync(p)\<close> throws when the path does not exist or cannot be removed.\<close>

definition unlinkSync :: "jsstring \<Rightarrow> filesystem \<Rightarrow> fs_error + filesystem" where
  "unlinkSync p fs =
     (if p \<notin> files fs then Inl ENOENT
      else if p \<in> locked fs then Inl EPERM
      else Inr (fs\<lparr>files := files fs - {p}\<rparr>))"

text \<open>The error object Node throws for a failed \<^verbatim>\<open>unlink\<close> (stack frames left out).\<close>

definition fs_error_thrown :: "fs_error \<Rightarrow> jsstring \<Rightarrow> js_error" where
  "fs_error_thrown e p =
     (let code = (case e of ENOENT \<Rightarrow> lit ''ENOENT'' | EPERM \<Rightarrow> lit ''EPERM'');
          what = (case e of ENOENT \<Rightarrow> lit ''no such file or directory''
                          | EPERM \<Rightarrow> lit ''operation not permitted'');
          msg = code @ lit '': '' @ what @ lit '', unlink '' @ [cu (CHR 0x27)] @ p @ [cu (CHR 0x27)]
      in \<lparr>err_name = Some (lit ''Error''), err_code = Some code, err_message = Some msg,
          err_stack = Some (lit ''Error: '' @ msg), err_string = lit ''Error: '' @ msg\<rparr>)"

record log_entry =
  entry_id :: jsstring
  entry_ts :: jsstring
  entry_guestName :: "jsstring option"
  entry_originalName :: "jsstring option"
  entry_message :: "jsstring option"
  entry_stack :: "jsstring option"

text \<open>What a request does to the outside, in order.\<close>

datatype effect =
    CloudinaryUpload jsstring jsstring
  | Unlink jsstring
  | AppendFile log_entry
  | ConsoleError "jsstring list"
  | DriveFilesList jsstring
  | DriveCreateFolder jsstring "jsstring list"
  | DriveCreateFile jsstring "jsstring list" jsstring jsstring

text \<open>The parts of the request the handlers read: \<^verbatim>\<open>req.body.guestName\<close> and
  \<^verbatim>\<open>req.file\<close> as multer leaves them (a text field is a string or absent).\<close>

record upload_file =
  file_path :: jsstring
  originalname :: jsstring
  mimetype :: jsstring

record request =
  body_guestName :: "jsstring option"
  req_file :: "upload_file option"

text \<open>The clock and the random source: \<^verbatim>\<open>Date.now()\<close>, \<^verbatim>\<open>new Date().toISOString()\<close>
  and \<^verbatim>\<open>Math.random().toString(36)\<close>.\<close>

record clock =
  Date_now :: nat
  Date_toISOString :: jsstring
  Math_random_toString36 :: jsstring

text \<open>\<^verbatim>\<open>if (tempPath && fs.existsSync(tempPath)) { try { fs.unlinkSync(tempPath); } catch (e) {} }\<close>\<close>

definition cleanup_temp :: "jsstring \<Rightarrow> filesystem \<Rightarrow> filesystem \<times> effect list" where
  "cleanup_temp tempPath fs =
     (if tempPath \<noteq> [] \<and> tempPath \<in> files fs
      then (case unlinkSync tempPath fs of
              Inl e \<Rightarrow> (fs, [Unlink tempPath])
            | Inr fs' \<Rightarrow> (fs', [Unlink tempPath]))
      else (fs, []))"

section \<open>The Cloudinary upload handler\<close>

text \<open>\<^verbatim>\<open>s.slice(a, b)\<close> for \<open>0 \<le> a \<le> b\<close>.\<close>

definition slice :: "nat \<Rightarrow> nat \<Rightarrow> jsstring \<Rightarrow> jsstring" where
  "slice a b s = take (b - a) (drop a s)"

text \<open>\<^verbatim>\<open>`${Date.now().toString(36)}-${Math.random().toString(36).slice(2,8)}`\<close>\<close>

definition errorId :: "clock \<Rightarrow> jsstring" where
  "errorId clk = to_radix 36 (Date_now clk) @ lit ''-'' @ slice 2 8 (Math_random_toString36 clk)"

text \<open>\<^verbatim>\<open>out.split(key).join(r)\<close> for a non-empty \<open>key\<close>: every occurrence of \<open>key\<close>,
  found from the left without overlap, becomes \<open>r\<close>.\<close>

fun split_join :: "jsstring \<Rightarrow> jsstring \<Rightarrow> jsstring \<Rightarrow> jsstring" where
  "split_join key r [] = []"
| "split_join key r (c # cs) =
     (if key \<noteq> [] \<and> take (length key) (c # cs) = key
      then r @ split_join key r (drop (length key) (c # cs))
      else c # split_join key r cs)"

definition redact :: "environment \<Rightarrow> jsstring option \<Rightarrow> jsstring option" where
  "redact env s =
     (if \<not> truthy s then s
      else if truthy (CLOUDINARY_API_KEY env)
        then Some (split_join (the (CLOUDINARY_API_KEY env)) (lit ''[REDACTED_API_KEY]'') (the s))
        else s)"

definition logEntry :: "environment \<Rightarrow> clock \<Rightarrow> request \<Rightarrow> js_error \<Rightarrow> log_entry" where
  "logEntry env clk req err =
     \<lparr>entry_id = errorId clk,
      entry_ts = Date_toISOString clk,
      entry_guestName = (if truthy (body_guestName req) then body_guestName req else None),
      entry_originalName =
        (case req_file req of None \<Rightarrow> None
         | Some f \<Rightarrow> if originalname f \<noteq> [] then Some (originalname f) else None),
      entry_message =
        redact env (Some (if truthy (err_message err) then the (err_message err) else err_string err)),
      entry_stack = redact env (if truthy (err_stack err) then err_stack err else None)\<rparr>"

text \<open>\<^verbatim>\<open>try { fs.appendFileSync(logPath, ...) } catch (e) { console.error(...) }\<close>\<close>

definition append_log :: "filesystem \<Rightarrow> log_entry \<Rightarrow> effect list" where
  "append_log fs entry =
     (case append_error fs of
        None \<Rightarrow> [AppendFile entry]
      | Some e \<Rightarrow> [AppendFile entry,
                  ConsoleError [lit ''No se pudo escribir upload_errors.log:'',
                    (if truthy (err_message e) then the (err_message e) else err_string e)]])"

record upload_result =
  public_id :: jsstring
  secure_url :: jsstring

text \<open>The route \<^verbatim>\<open>POST /upload\<close> of \<^verbatim>\<open>server.js\<close>. \<open>remote\<close> is what
  \<^verbatim>\<open>cloudinary.uploader.upload\<close> does for this request: it rejects with an error or
  resolves with a result. The handler returns the response, the disk afterwards and
  the effects in order.\<close>

definition upload_handler ::
  "environment \<Rightarrow> clock \<Rightarrow> js_error + upload_result \<Rightarrow> request \<Rightarrow> filesystem
     \<Rightarrow> response \<times> filesystem \<times> effect list" where
  "upload_handler env clk remote req fs =
     (let guestName = or_else (body_guestName req) [] in
      if guestName = []
      then (\<lparr>statusCode = 400, body = JObj [(''error'', JStr (lit ''guestName faltante''))]\<rparr>, fs, [])
      else case req_file req of
        None \<Rightarrow>
          (\<lparr>statusCode = 400, body = JObj [(''error'', JStr (lit ''Archivo faltante''))]\<rparr>, fs, [])
      | Some f \<Rightarrow>
          let tempPath = file_path f;
              mainFolder = or_else (CLOUDINARY_FOLDER env) (lit ''wedding_photos'');
              uploadFolder = mainFolder @ lit ''/'' @ sanitized guestName
          in case remote of
               Inr result \<Rightarrow>
                 let (fs', unlinks) = cleanup_temp tempPath fs
                 in (\<lparr>statusCode = 200,
                      body = JObj [(''success'', JBool True),
                                   (''file'', JObj [(''public_id'', JStr (public_id result)),
                                                    (''url'', JStr (secure_url result))])]\<rparr>,
                     fs', CloudinaryUpload tempPath uploadFolder # unlinks)
             | Inl err \<Rightarrow>
                 let entry = logEntry env clk req err;
                     (fs', unlinks) = cleanup_temp tempPath fs
                 in (\<lparr>statusCode = 500,
                      body = JObj [(''success'', JBool False),
                                   (''error'', JStr (lit ''Error al subir el archivo. Contacta al administrador con el id: '' @ errorId clk)),
                                   (''id'', JStr (errorId clk))]\<rparr>,
                     fs',
                     CloudinaryUpload tempPath uploadFolder # append_log fs entry
                       @ [ConsoleError [lit ''Cloudinary upload error [id='' @ errorId clk @ lit '']:'',
                                        or_else (entry_message entry) []]]
                       @ unlinks))"

subsection \<open>The multer error middleware\<close>

text \<open>\<^verbatim>\<open>const MAX_FILE_SIZE_MB = parseInt(process.env.MAX_FILE_SIZE_MB || '50', 10)\<close>\<close>

definition MAX_FILE_SIZE_MB :: "environment \<Rightarrow> jsnum" where
  "MAX_FILE_SIZE_MB env = parseInt10 (or_else (MAX_FILE_SIZE_MB_var env) (lit ''50''))"

text \<open>\<^verbatim>\<open>'...' + err.message\<close>: an undefined message prints as \<^verbatim>\<open>undefined\<close>.\<close>

definition message_text :: "js_error \<Rightarrow> jsstring" where
  "message_text err = (case err_message err of None \<Rightarrow> lit ''undefined'' | Some m \<Rightarrow> m)"

datatype middleware_result = Responded response | Next js_error

text \<open>The messages of the source, with \<^verbatim>\<open>U+00F1\<close> and \<^verbatim>\<open>U+00E1\<close> as code units.\<close>

definition too_large_prefix :: jsstring where
  "too_large_prefix =
     lit ''Archivo demasiado grande. Tama'' @ [0xF1] @ lit ''o m'' @ [0xE1] @ lit ''ximo por archivo: ''"

definition multer_error_middleware ::
  "(int \<Rightarrow> jsstring) \<Rightarrow> environment \<Rightarrow> js_error \<Rightarrow> middleware_result" where
  "multer_error_middleware double_text env err =
     (if err_name err = Some (lit ''MulterError'')
      then (if err_code err = Some (lit ''LIMIT_FILE_SIZE'')
            then Responded \<lparr>statusCode = 413,
                   body = JObj [(''success'', JBool False),
                                (''error'', JStr (too_large_prefix
                                   @ num_to_string double_text (MAX_FILE_SIZE_MB env)
                                   @ lit '' MB''))]\<rparr>
            else Responded \<lparr>statusCode = 400,
                   body = JObj [(''success'', JBool False),
                                (''error'', JStr (lit ''Error en la carga del archivo: ''
                                   @ message_text err))]\<rparr>)
      else Next err)"

section \<open>The Drive upload handler\<close>

text \<open>What the Drive API answers to the calls of one request, in the order the handler
  makes them: listing the event folder, creating it, listing the guest folder, creating
  it, creating the file. A listing resolves with the ids found.\<close>

record drive_remote =
  list_main :: "js_error + jsstring list"
  create_main :: "js_error + jsstring"
  list_guest :: "js_error + jsstring list"
  create_guest :: "js_error + jsstring"
  create_file :: "js_error + json"

definition folder_mime :: jsstring where
  "folder_mime = lit ''application/vnd.google-apps.folder''"

definition quote :: "jsstring \<Rightarrow> jsstring" where
  "quote s = [cu (CHR 0x27)] @ s @ [cu (CHR 0x27)]"

definition q_main :: "jsstring \<Rightarrow> jsstring" where
  "q_main mainFolder =
     lit ''name='' @ quote mainFolder @ lit '' and mimeType='' @ quote folder_mime
       @ lit '' and trashed=false''"

definition q_guest :: "jsstring \<Rightarrow> jsstring \<Rightarrow> jsstring" where
  "q_guest name folderId =
     lit ''name='' @ quote name @ lit '' and '' @ quote folderId @ lit '' in parents and mimeType=''
       @ quote folder_mime @ lit '' and trashed=false''"

text \<open>\<^verbatim>\<open>res.data.files.length ? res.data.files[0].id : (await drive.files.create(...)).data.id\<close>:
  the listing, then the creation only when nothing was found.\<close>

definition find_or_create ::
  "js_error + jsstring list \<Rightarrow> js_error + jsstring \<Rightarrow> effect \<Rightarrow> effect
     \<Rightarrow> (js_error + jsstring) \<times> effect list" where
  "find_or_create listed created list_call create_call =
     (case listed of
        Inl e \<Rightarrow> (Inl e, [list_call])
      | Inr ids \<Rightarrow>
          (case ids of
             [] \<Rightarrow> (created, [list_call, create_call])
           | i # _ \<Rightarrow> (Inr i, [list_call])))"

text \<open>The \<^verbatim>\<open>try\<close> block: its outcome (a thrown error or the response sent), the value
  of \<^verbatim>\<open>tempPath\<close> when it ends, the disk and the effects.\<close>

definition drive_try ::
  "clock \<Rightarrow> drive_remote \<Rightarrow> request \<Rightarrow> filesystem
     \<Rightarrow> (js_error + response) \<times> jsstring option \<times> filesystem \<times> effect list" where
  "drive_try clk remote req fs =
     (if \<not> truthy (body_guestName req)
      then (Inr \<lparr>statusCode = 400, body = JObj [(''error'', JStr (lit ''guestName faltante''))]\<rparr>,
            None, fs, [])
      else case req_file req of
        None \<Rightarrow>
          (Inr \<lparr>statusCode = 400, body = JObj [(''error'', JStr (lit ''Archivo faltante''))]\<rparr>,
           None, fs, [])
      | Some f \<Rightarrow>
          let guestName = the (body_guestName req);
              tempPath = file_path f;
              mainFolder = lit ''Fotos_Boda'';
              (main, calls1) = find_or_create (list_main remote) (create_main remote)
                                 (DriveFilesList (q_main mainFolder))
                                 (DriveCreateFolder mainFolder [])
          in case main of
               Inl e \<Rightarrow> (Inl e, Some tempPath, fs, calls1)
             | Inr folderId \<Rightarrow>
                 let name = sanitizedName guestName;
                     (guest, calls2) = find_or_create (list_guest remote) (create_guest remote)
                                         (DriveFilesList (q_guest name folderId))
                                         (DriveCreateFolder name [folderId])
                 in case guest of
                      Inl e \<Rightarrow> (Inl e, Some tempPath, fs, calls1 @ calls2)
                    | Inr guestFolderId \<Rightarrow>
                        let calls3 = calls1 @ calls2 @
                              [DriveCreateFile (to_radix 10 (Date_now clk) @ lit ''_'' @ originalname f)
                                 [guestFolderId] (mimetype f) (file_path f)]
                        in case create_file remote of
                             Inl e \<Rightarrow> (Inl e, Some tempPath, fs, calls3)
                           | Inr data \<Rightarrow>
                               let ok = \<lparr>statusCode = 200,
                                         body = JObj [(''success'', JBool True), (''file'', data)]\<rparr>
                               in if tempPath \<noteq> [] \<and> tempPath \<in> files fs
                                  then (case unlinkSync tempPath fs of
                                          Inl fe \<Rightarrow> (Inl (fs_error_thrown fe tempPath), Some tempPath,
                                                    fs, calls3 @ [Unlink tempPath])
                                        | Inr fs' \<Rightarrow> (Inr ok, Some tempPath, fs',
                                                     calls3 @ [Unlink tempPath]))
                                  else (Inr ok, Some tempPath, fs, calls3))"

text \<open>\<^verbatim>\<open>res.status(500).json({ success: false, error: err.message })\<close>: an undefined
  message leaves the object without the key.\<close>

definition drive_error_body :: "js_error \<Rightarrow> json" where
  "drive_error_body err =
     JObj ((''success'', JBool False) #
           (case err_message err of None \<Rightarrow> [] | Some m \<Rightarrow> [(''error'', JStr m)]))"

text \<open>The route \<^verbatim>\<open>POST /upload\<close> of the Drive variant; \<open>oAuth2Client\<close> tells whether
  the OAuth client was built at start-up.\<close>

definition drive_upload_handler ::
  "bool \<Rightarrow> clock \<Rightarrow> drive_remote \<Rightarrow> request \<Rightarrow> filesystem
     \<Rightarrow> response \<times> filesystem \<times> effect list" where
  "drive_upload_handler oAuth2Client clk remote req fs =
     (if \<not> oAuth2Client
      then (\<lparr>statusCode = 500,
             body = JObj [(''error'', JStr (lit ''OAuth no configurado en el servidor''))]\<rparr>, fs, [])
      else
        let (outcome, tempPath, fs1, calls) = drive_try clk remote req fs;
            (res, logged) = (case outcome of
                               Inr sent \<Rightarrow> (sent, [])
                             | Inl err \<Rightarrow> (\<lparr>statusCode = 500, body = drive_error_body err\<rparr>,
                                          [ConsoleError [err_string err]]));
            (fs2, unlinks) = (case tempPath of
                                None \<Rightarrow> (fs1, [])
                              | Some p \<Rightarrow> cleanup_temp p fs1)
        in (res, fs2, calls @ logged @ unlinks))"

text \<open>The remote calls among the effects.\<close>

fun is_remote_call :: "effect \<Rightarrow> bool" where
  "is_remote_call (CloudinaryUpload p f) = True"
| "is_remote_call (DriveFilesList q) = True"
| "is_remote_call (DriveCreateFolder n ps) = True"
| "is_remote_call (DriveCreateFile n ps m p) = True"
| "is_remote_call (Unlink p) = False"
| "is_remote_call (AppendFile e) = False"
| "is_remote_call (ConsoleError xs) = False"

fun is_unlink :: "effect \<Rightarrow> bool" where
  "is_unlink (Unlink p) = True"
| "is_unlink e = False"

text \<open>The error of the first Drive call that fails, in the order in which the handler
  makes the calls (a folder is created only when its listing found nothing).\<close>

definition first_failure :: "drive_remote \<Rightarrow> js_error option" where
  "first_failure remote =
     (case list_main remote of
        Inl e \<Rightarrow> Some e
      | Inr ids \<Rightarrow>
          (case (if ids = [] then create_main remote else Inr (hd ids)) of
             Inl e \<Rightarrow> Some e
           | Inr folderId \<Rightarrow>
               (case list_guest remote of
                  Inl e \<Rightarrow> Some e
                | Inr gids \<Rightarrow>
                    (case (if gids = [] then create_guest remote else Inr (hd gids)) of
                       Inl e \<Rightarrow> Some e
                     | Inr guestFolderId \<Rightarrow>
                         (case create_file remote of Inl e \<Rightarrow> Some e | Inr data \<Rightarrow> None)))))"

text \<open>The value of a key of a JSON object.\<close>

fun field :: "json \<Rightarrow> string \<Rightarrow> json option" where
  "field (JObj kvs) k = map_of kvs k"
| "field j k = None"

fun keys :: "json \<Rightarrow> string list" where
  "keys (JObj kvs) = map fst kvs"
| "keys j = []"

section \<open>Sanitizing guest names\<close>

lemma lit_underscore: "lit ''_'' = [cu CHR ''_'']"
  by (simp add: lit_def)

lemma replace_outside_map:
  "replace_outside cls [u] s = map (\<lambda>c. if cls c then c else u) s"
  by (induction s) simp_all

lemma replace_outside_idem:
  "replace_outside cls [u] (replace_outside cls [u] s) = replace_outside cls [u] s"
  by (induction s) simp_all

lemma class_word_dash_underscore: "class_word_dash (cu CHR ''_'')"
  by (simp add: class_word_dash_def)

lemma sanitized_map:
  "sanitized s = map (\<lambda>c. if class_word_dash c then c else cu CHR ''_'') s"
  by (simp add: sanitized_def lit_underscore replace_outside_map)

lemma sanitizedName_map:
  "sanitizedName s = map (\<lambda>c. if class_alnum c then c else cu CHR ''_'') s"
  by (simp add: sanitizedName_def lit_underscore replace_outside_map)

lemma sanitize_Some: "sanitize (Some s) = sanitized s"
  by (cases s) (simp_all add: sanitize_def sanitized_def)

lemma class_not_white_space: "class_word_dash c \<Longrightarrow> \<not> is_white_space c"
  unfolding class_word_dash_def is_white_space_def in_range_def cu_def
  by (auto simp: word_le_nat_alt)

lemma sanitized_in_class: "c \<in> set (sanitized s) \<Longrightarrow> class_word_dash c"
  by (auto simp: sanitized_map class_word_dash_underscore)

lemma sanitized_fixed: "(\<And>c. c \<in> set s \<Longrightarrow> class_word_dash c) \<Longrightarrow> sanitized s = s"
  by (simp add: sanitized_map map_idI)

lemma sanitized_empty_iff: "sanitized s = [] \<longleftrightarrow> s = []"
  by (simp add: sanitized_map)

lemma dropWhile_none: "(\<And>c. c \<in> set s \<Longrightarrow> \<not> P c) \<Longrightarrow> dropWhile P s = s"
  by (cases s) simp_all

lemma trim_fixed:
  assumes "\<And>c. c \<in> set s \<Longrightarrow> \<not> is_white_space c"
  shows "trim s = s"
proof -
  have front: "dropWhile is_white_space s = s"
    by (rule dropWhile_none) (rule assms)
  have rear: "dropWhile is_white_space (rev s) = rev s"
    by (rule dropWhile_none) (simp add: assms)
  show ?thesis
    by (simp add: trim_def front rear)
qed

lemma trim_in_class: "(\<And>c. c \<in> set s \<Longrightarrow> class_word_dash c) \<Longrightarrow> trim s = s"
  by (rule trim_fixed) (simp add: class_not_white_space)

lemma sign_sanitized_eq:
  "sign_sanitized g = (if g = [] then lit ''anonymous'' else sanitized g)"
  by (simp add: sign_sanitized_def sanitize_Some sanitized_empty_iff)

lemma anonymous_in_class: "c \<in> set (lit ''anonymous'') \<Longrightarrow> class_word_dash c"
  by (auto simp: lit_def class_word_dash_def in_range_def cu_def)

lemma sign_sanitized_in_class: "c \<in> set (sign_sanitized g) \<Longrightarrow> class_word_dash c"
  by (auto simp: sign_sanitized_eq anonymous_in_class sanitized_in_class split: if_splits)

lemma sign_sanitized_nonempty: "sign_sanitized g \<noteq> []"
  by (simp add: sign_sanitized_eq sanitized_empty_iff lit_def)

text \<open>
  C1, as amended. In the Cloudinary upload handler the sanitized folder segment has the
  length of the guest name, and at every position it holds the guest name's code unit
  when that is in \<^verbatim>\<open>[A-Za-z0-9_-]\<close> and \<^verbatim>\<open>_\<close> otherwise. The signing function
  applies the same sanitization to the trimmed query parameter and uses
  \<^verbatim>\<open>anonymous\<close> when that is empty. The Drive upload handler keeps only
  \<^verbatim>\<open>[A-Za-z0-9]\<close>: every other code unit, the hyphen included, becomes \<^verbatim>\<open>_\<close>,
  and the length is preserved.
\<close>

theorem sanitized_segment:
  "length (sanitized s) = length s
   \<and> (\<forall>i<length s. sanitized s ! i = (if class_word_dash (s ! i) then s ! i else cu CHR ''_''))
   \<and> sign_sanitized (sign_guestName ev) =
       (if sign_guestName ev = [] then lit ''anonymous'' else sanitized (sign_guestName ev))
   \<and> length (sanitizedName s) = length s
   \<and> (\<forall>i<length s. sanitizedName s ! i = (if class_alnum (s ! i) then s ! i else cu CHR ''_''))"
  by (simp add: sanitized_map sanitizedName_map sign_sanitized_eq)

theorem sanitized_segment_witness:
  "sanitized (lit ''Ana & Luis-2'') = lit ''Ana___Luis-2''
   \<and> sanitizedName (lit ''Ana & Luis_2'') = lit ''Ana___Luis_2''
   \<and> (1::nat) < length (lit ''a b'') \<and> sanitized (lit ''a b'') ! 1 = cu CHR ''_''"
  using sanitized_segment [of "lit ''a b''"]
  by (simp add: sanitized_def sanitizedName_def lit_def cu_def class_word_dash_def class_alnum_def in_range_def)

text \<open>
  C1 as stated fails in the Drive upload handler: in the guest name \<^verbatim>\<open>a-b\<close> the
  hyphen is in \<^verbatim>\<open>[A-Za-z0-9_-]\<close>, and the handler replaces it. It also fails in the
  signing function, which trims first: for the guest name \<^verbatim>\<open>" a"\<close> the segment is
  \<^verbatim>\<open>a\<close>, one code unit shorter than the input.
\<close>

theorem sanitized_segment_counterexample:
  "class_word_dash (lit ''a-b'' ! 1)
   \<and> sanitizedName (lit ''a-b'') ! 1 \<noteq> lit ''a-b'' ! 1
   \<and> sign_sanitized (sign_guestName \<lparr>queryStringParameters = Some [(lit ''guestName'', lit '' a'')]\<rparr>)
       = lit ''a''"
  by (simp add: sanitizedName_def sign_sanitized_def sign_guestName_def qs_guestName_def
        sanitize_def trim_def is_white_space_def lit_def cu_def class_word_dash_def
        class_alnum_def in_range_def)

text \<open>
  C9. Sanitizing twice is sanitizing once: for the replacement of the Cloudinary upload
  handler, for that of the Drive upload handler, for the \<^verbatim>\<open>sanitize\<close> helper of the
  signing function, and for the signing function's whole computation of the segment
  (trim, sanitize, fall back to \<^verbatim>\<open>anonymous\<close>).
\<close>

theorem sanitize_idempotent:
  "sanitized (sanitized s) = sanitized s
   \<and> sanitizedName (sanitizedName s) = sanitizedName s
   \<and> sanitize (Some (sanitize t)) = sanitize t
   \<and> sign_sanitized (trim (sign_sanitized (trim g))) = sign_sanitized (trim g)"
proof -
  have cloud: "sanitized (sanitized s) = sanitized s" for s
    by (simp add: sanitized_def lit_underscore replace_outside_idem)
  have drive: "sanitizedName (sanitizedName s) = sanitizedName s"
    by (simp add: sanitizedName_def lit_underscore replace_outside_idem)
  have sign: "sanitize (Some (sanitize t)) = sanitize t"
    by (cases t) (simp_all add: sanitize_def lit_underscore replace_outside_idem)
  have "trim (sign_sanitized (trim g)) = sign_sanitized (trim g)"
    by (rule trim_in_class) (rule sign_sanitized_in_class)
  moreover have "sign_sanitized (sign_sanitized (trim g)) = sign_sanitized (trim g)"
    using sign_sanitized_nonempty [of "trim g"] sign_sanitized_in_class [of _ "trim g"]
    by (simp add: sign_sanitized_eq [of "sign_sanitized (trim g)"] sanitized_fixed)
  ultimately show ?thesis using cloud drive sign by simp
qed

theorem sanitize_idempotent_witness:
  "sanitized (sanitized (lit ''a b'')) = lit ''a_b''
   \<and> sanitizedName (sanitizedName (lit ''a-b'')) = sanitizedName (lit ''a-b'')"
  using sanitize_idempotent [of "lit ''a b''" None "[]"] sanitize_idempotent [of "lit ''a-b''" None "[]"]
  by (simp add: sanitized_def lit_def cu_def class_word_dash_def in_range_def)

section \<open>The signing function's folder\<close>

lemma handler_configured:
  assumes "truthy (CLOUDINARY_CLOUD_NAME env)" "truthy (CLOUDINARY_API_KEY env)"
    "truthy (CLOUDINARY_API_SECRET env)"
  shows "handler H env now ev =
     \<lparr>statusCode = 200,
      body = JObj [(''api_key'', JStr (the (CLOUDINARY_API_KEY env))),
                   (''timestamp'', JNum (int (timestamp_of now))),
                   (''signature'', JStr (signature_of H (sign_folder env ev) (timestamp_of now)
                                          (the (CLOUDINARY_API_SECRET env)))),
                   (''cloud_name'', JStr (the (CLOUDINARY_CLOUD_NAME env))),
                   (''folder'', JStr (sign_folder env ev))]\<rparr>"
  using assms by (simp add: handler_def Let_def)

lemma BASE_FOLDER_nonempty: "BASE_FOLDER env \<noteq> []"
  by (cases "CLOUDINARY_FOLDER env") (simp_all add: BASE_FOLDER_def lit_def)

text \<open>
  C8. When the signing function is configured and the \<^verbatim>\<open>guestName\<close> query parameter
  is absent, or trims or sanitizes to the empty string, the folder of the signed
  parameters is the base folder, a slash and the placeholder \<^verbatim>\<open>anonymous\<close>; neither
  the base folder nor the placeholder is empty.
\<close>

theorem anonymous_fallback:
  assumes "truthy (CLOUDINARY_CLOUD_NAME env)" "truthy (CLOUDINARY_API_KEY env)"
    "truthy (CLOUDINARY_API_SECRET env)"
    and "case qs_guestName ev of None \<Rightarrow> True
         | Some g \<Rightarrow> trim g = [] \<or> sanitize (Some (trim g)) = []"
  shows "field (body (handler H env now ev)) ''folder''
           = Some (JStr (BASE_FOLDER env @ lit ''/'' @ lit ''anonymous''))
         \<and> BASE_FOLDER env \<noteq> [] \<and> lit ''anonymous'' \<noteq> []"
proof -
  have "sign_guestName ev = []"
    using assms(4)
    by (auto simp: sign_guestName_def sanitize_Some sanitized_empty_iff split: option.splits)
  then have "sign_folder env ev = BASE_FOLDER env @ lit ''/'' @ lit ''anonymous''"
    by (simp add: sign_folder_def sign_sanitized_eq)
  then show ?thesis
    using handler_configured [OF assms(1-3), of H now ev]
    by (simp add: BASE_FOLDER_nonempty) (simp add: lit_def)
qed


theorem anonymous_fallback_witness:
  "field (body (handler (\<lambda>s. s)
      \<lparr>CLOUDINARY_CLOUD_NAME = Some (lit ''demo''), CLOUDINARY_API_KEY = Some (lit ''k1''),
       CLOUDINARY_API_SECRET = Some (lit ''s3''), CLOUDINARY_FOLDER = None,
       MAX_FILE_SIZE_MB_var = None\<rparr> 0
      \<lparr>queryStringParameters = Some [(lit ''guestName'', lit ''  '')]\<rparr>)) ''folder''
   = Some (JStr (lit ''wedding_photos/anonymous''))"
  using anonymous_fallback [of
      "\<lparr>CLOUDINARY_CLOUD_NAME = Some (lit ''demo''), CLOUDINARY_API_KEY = Some (lit ''k1''),
       CLOUDINARY_API_SECRET = Some (lit ''s3''), CLOUDINARY_FOLDER = None,
       MAX_FILE_SIZE_MB_var = None\<rparr>"
      "\<lparr>queryStringParameters = Some [(lit ''guestName'', lit ''  '')]\<rparr>" "\<lambda>s. s" 0]
  by (simp add: qs_guestName_def trim_def is_white_space_def BASE_FOLDER_def lit_def cu_def)

text \<open>
  C10. For a guest name that is not empty and equals its own trim, the folder that the
  Cloudinary upload handler passes to its one remote call is the folder that the signing
  function returns for the same guest name and the same \<^verbatim>\<open>CLOUDINARY_FOLDER\<close>.
\<close>

theorem folders_agree:
  assumes "g \<noteq> []" "trim g = g"
    and "body_guestName req = Some g" "req_file req = Some f"
    and "qs_guestName ev = Some g"
    and "CLOUDINARY_FOLDER env' = CLOUDINARY_FOLDER env"
    and "truthy (CLOUDINARY_CLOUD_NAME env')" "truthy (CLOUDINARY_API_KEY env')"
      "truthy (CLOUDINARY_API_SECRET env')"
  shows "filter is_remote_call (snd (snd (upload_handler env clk remote req fs)))
           = [CloudinaryUpload (file_path f) (sign_folder env' ev)]
         \<and> field (body (handler H env' now ev)) ''folder'' = Some (JStr (sign_folder env' ev))
         \<and> sign_folder env' ev = BASE_FOLDER env @ lit ''/'' @ sanitized g"
proof -
  have folder: "sign_folder env' ev = BASE_FOLDER env @ lit ''/'' @ sanitized g"
    using assms(1,2,5,6)
    by (simp add: sign_folder_def sign_guestName_def sign_sanitized_eq BASE_FOLDER_def)
  have unlinks: "filter is_remote_call (snd (cleanup_temp p fs)) = []" for p
    by (simp add: cleanup_temp_def split: sum.splits)
  have logs: "filter is_remote_call (append_log fs e) = []" for e
    by (simp add: append_log_def split: option.splits)
  have "filter is_remote_call (snd (snd (upload_handler env clk remote req fs)))
          = [CloudinaryUpload (file_path f) (BASE_FOLDER env @ lit ''/'' @ sanitized g)]"
    using assms(1,3,4) unlinks [of "file_path f"]
    by (cases remote)
       (simp_all add: upload_handler_def Let_def split_def BASE_FOLDER_def logs)
  then show ?thesis
    using folder handler_configured [OF assms(7-9), of H now ev] by simp
qed

theorem folders_agree_witness:
  "filter is_remote_call (snd (snd (upload_handler
      \<lparr>CLOUDINARY_CLOUD_NAME = Some (lit ''demo''), CLOUDINARY_API_KEY = Some (lit ''k1''),
       CLOUDINARY_API_SECRET = Some (lit ''s3''), CLOUDINARY_FOLDER = Some (lit ''boda''),
       MAX_FILE_SIZE_MB_var = None\<rparr>
      \<lparr>Date_now = 0, Date_toISOString = [], Math_random_toString36 = lit ''0.abcdefgh''\<rparr>
      (Inr \<lparr>public_id = lit ''p'', secure_url = lit ''u''\<rparr>)
      \<lparr>body_guestName = Some (lit ''Ana Luz''),
       req_file = Some \<lparr>file_path = lit ''uploads/f1'', originalname = lit ''a.jpg'',
                        mimetype = lit ''image/jpeg''\<rparr>\<rparr>
      \<lparr>files = {lit ''uploads/f1''}, locked = {}, append_error = None\<rparr>)))
   = [CloudinaryUpload (lit ''uploads/f1'') (lit ''boda/Ana_Luz'')]"
  using folders_agree [of "lit ''Ana Luz''"
      "\<lparr>body_guestName = Some (lit ''Ana Luz''),
       req_file = Some \<lparr>file_path = lit ''uploads/f1'', originalname = lit ''a.jpg'',
                        mimetype = lit ''image/jpeg''\<rparr>\<rparr>"
      "\<lparr>file_path = lit ''uploads/f1'', originalname = lit ''a.jpg'', mimetype = lit ''image/jpeg''\<rparr>"
      "\<lparr>queryStringParameters = Some [(lit ''guestName'', lit ''Ana Luz'')]\<rparr>"
      "\<lparr>CLOUDINARY_CLOUD_NAME = Some (lit ''demo''), CLOUDINARY_API_KEY = Some (lit ''k1''),
       CLOUDINARY_API_SECRET = Some (lit ''s3''), CLOUDINARY_FOLDER = Some (lit ''boda''),
       MAX_FILE_SIZE_MB_var = None\<rparr>"
      "\<lparr>CLOUDINARY_CLOUD_NAME = Some (lit ''demo''), CLOUDINARY_API_KEY = Some (lit ''k1''),
       CLOUDINARY_API_SECRET = Some (lit ''s3''), CLOUDINARY_FOLDER = Some (lit ''boda''),
       MAX_FILE_SIZE_MB_var = None\<rparr>"
      "\<lparr>Date_now = 0, Date_toISOString = [], Math_random_toString36 = lit ''0.abcdefgh''\<rparr>"
      "Inr \<lparr>public_id = lit ''p'', secure_url = lit ''u''\<rparr>"
      "\<lparr>files = {lit ''uploads/f1''}, locked = {}, append_error = None\<rparr>"]
  by (simp add: qs_guestName_def trim_def is_white_space_def BASE_FOLDER_def sign_folder_def
        sign_guestName_def sign_sanitized_def sanitize_def sanitized_def class_word_dash_def
        in_range_def lit_def cu_def)

section \<open>The signature\<close>

text \<open>
  C3. When the signing function is configured it answers 200 with exactly the keys
  \<^verbatim>\<open>api_key\<close>, \<^verbatim>\<open>timestamp\<close>, \<^verbatim>\<open>signature\<close>, \<^verbatim>\<open>cloud_name\<close> and \<^verbatim>\<open>folder\<close>.
  The signature is the hash of \<^verbatim>\<open>folder=<folder>&timestamp=<timestamp>\<close> followed by
  the API secret, where the timestamp is the clock in whole seconds, and the key
  \<^verbatim>\<open>folder\<close> sorts before the key \<^verbatim>\<open>timestamp\<close>. The secret reaches the response
  through the hash only: with a hash that ignores its input, changing the secret does
  not change the response.
\<close>

theorem handler_signed_params:
  assumes "truthy (CLOUDINARY_CLOUD_NAME env)" "truthy (CLOUDINARY_API_KEY env)"
    "truthy (CLOUDINARY_API_SECRET env)"
  shows "statusCode (handler H env now ev) = 200
     \<and> keys (body (handler H env now ev))
          = [''api_key'', ''timestamp'', ''signature'', ''cloud_name'', ''folder'']
     \<and> field (body (handler H env now ev)) ''signature''
          = Some (JStr (H (lit ''folder='' @ sign_folder env ev @ lit ''&timestamp=''
                            @ to_radix 10 (now div 1000) @ the (CLOUDINARY_API_SECRET env))))
     \<and> field (body (handler H env now ev)) ''timestamp'' = Some (JNum (int (now div 1000)))
     \<and> field (body (handler H env now ev)) ''folder'' = Some (JStr (sign_folder env ev))
     \<and> field (body (handler H env now ev)) ''api_key'' = Some (JStr (the (CLOUDINARY_API_KEY env)))
     \<and> field (body (handler H env now ev)) ''cloud_name''
          = Some (JStr (the (CLOUDINARY_CLOUD_NAME env)))
     \<and> lit ''folder'' < lit ''timestamp''
     \<and> (\<forall>secret. secret \<noteq> [] \<longrightarrow>
           handler (\<lambda>x. d) (env\<lparr>CLOUDINARY_API_SECRET := Some secret\<rparr>) now ev
             = handler (\<lambda>x. d) env now ev)"
proof -
  have sorted: "lit ''folder'' < lit ''timestamp''"
    by (simp add: lit_def cu_def)
  have same: "handler (\<lambda>x. d) (env\<lparr>CLOUDINARY_API_SECRET := Some secret\<rparr>) now ev
                = handler (\<lambda>x. d) env now ev" if "secret \<noteq> []" for secret
    using assms that
    by (simp add: handler_def Let_def signature_of_def sign_folder_def BASE_FOLDER_def)
  show ?thesis
    using sorted same
    by (simp add: handler_configured [OF assms] signature_of_def toSign_def timestamp_of_def)
qed

theorem handler_signed_params_witness:
  "field (body (handler (\<lambda>x. x)
      \<lparr>CLOUDINARY_CLOUD_NAME = Some (lit ''demo''), CLOUDINARY_API_KEY = Some (lit ''k1''),
       CLOUDINARY_API_SECRET = Some (lit ''s3''), CLOUDINARY_FOLDER = Some (lit ''boda''),
       MAX_FILE_SIZE_MB_var = None\<rparr> 1730000000999
      \<lparr>queryStringParameters = Some [(lit ''guestName'', lit ''Ana'')]\<rparr>)) ''signature''
   = Some (JStr (lit ''folder=boda/Ana&timestamp=1730000000s3''))"
  using handler_signed_params [of
      "\<lparr>CLOUDINARY_CLOUD_NAME = Some (lit ''demo''), CLOUDINARY_API_KEY = Some (lit ''k1''),
       CLOUDINARY_API_SECRET = Some (lit ''s3''), CLOUDINARY_FOLDER = Some (lit ''boda''),
       MAX_FILE_SIZE_MB_var = None\<rparr>" "\<lambda>x. x" 1730000000999
      "\<lparr>queryStringParameters = Some [(lit ''guestName'', lit ''Ana'')]\<rparr>"]
  by (simp add: qs_guestName_def trim_def is_white_space_def BASE_FOLDER_def sign_folder_def
        sign_guestName_def sign_sanitized_def sanitize_def class_word_dash_def
        in_range_def to_radix.simps digit_char_def lit_def cu_def)

text \<open>
  C4. Two runs of the signing function, whatever their events, clocks and other
  settings, that sign the same folder and the same timestamp with the same secret
  produce the same signature: it is \<open>signature_of\<close> at (folder, timestamp, secret).
\<close>

theorem signature_deterministic:
  assumes "truthy (CLOUDINARY_CLOUD_NAME env1)" "truthy (CLOUDINARY_API_KEY env1)"
    "truthy (CLOUDINARY_API_SECRET env1)"
    and "truthy (CLOUDINARY_CLOUD_NAME env2)" "truthy (CLOUDINARY_API_KEY env2)"
    "truthy (CLOUDINARY_API_SECRET env2)"
    and "sign_folder env1 ev1 = sign_folder env2 ev2"
    and "timestamp_of now1 = timestamp_of now2"
    and "CLOUDINARY_API_SECRET env1 = CLOUDINARY_API_SECRET env2"
  shows "field (body (handler H env1 now1 ev1)) ''signature''
           = field (body (handler H env2 now2 ev2)) ''signature''
     \<and> field (body (handler H env1 now1 ev1)) ''signature''
           = Some (JStr (signature_of H (sign_folder env1 ev1) (timestamp_of now1)
                           (the (CLOUDINARY_API_SECRET env1))))"
  using assms(7-9)
  by (simp add: handler_configured [OF assms(1-3)] handler_configured [OF assms(4-6)])

theorem signature_deterministic_witness:
  "field (body (handler (\<lambda>x. x)
      \<lparr>CLOUDINARY_CLOUD_NAME = Some (lit ''demo''), CLOUDINARY_API_KEY = Some (lit ''k1''),
       CLOUDINARY_API_SECRET = Some (lit ''s3''), CLOUDINARY_FOLDER = Some (lit ''boda''),
       MAX_FILE_SIZE_MB_var = None\<rparr> 5000
      \<lparr>queryStringParameters = Some [(lit ''guestName'', lit ''Ana'')]\<rparr>)) ''signature''
   = field (body (handler (\<lambda>x. x)
      \<lparr>CLOUDINARY_CLOUD_NAME = Some (lit ''other''), CLOUDINARY_API_KEY = Some (lit ''k2''),
       CLOUDINARY_API_SECRET = Some (lit ''s3''), CLOUDINARY_FOLDER = Some (lit ''boda''),
       MAX_FILE_SIZE_MB_var = Some (lit ''9'')\<rparr> 5999
      \<lparr>queryStringParameters = Some [(lit ''guestName'', lit '' Ana '')]\<rparr>)) ''signature''"
  using signature_deterministic [of
      "\<lparr>CLOUDINARY_CLOUD_NAME = Some (lit ''demo''), CLOUDINARY_API_KEY = Some (lit ''k1''),
       CLOUDINARY_API_SECRET = Some (lit ''s3''), CLOUDINARY_FOLDER = Some (lit ''boda''),
       MAX_FILE_SIZE_MB_var = None\<rparr>"
      "\<lparr>CLOUDINARY_CLOUD_NAME = Some (lit ''other''), CLOUDINARY_API_KEY = Some (lit ''k2''),
       CLOUDINARY_API_SECRET = Some (lit ''s3''), CLOUDINARY_FOLDER = Some (lit ''boda''),
       MAX_FILE_SIZE_MB_var = Some (lit ''9'')\<rparr>"
      "\<lparr>queryStringParameters = Some [(lit ''guestName'', lit ''Ana'')]\<rparr>"
      "\<lparr>queryStringParameters = Some [(lit ''guestName'', lit '' Ana '')]\<rparr>"
      5000 5999 "\<lambda>x. x"]
  by (simp add: qs_guestName_def trim_def is_white_space_def BASE_FOLDER_def sign_folder_def
        sign_guestName_def timestamp_of_def lit_def cu_def)

section \<open>Failures of the remote store\<close>

lemma cleanup_temp_removes:
  assumes "p \<noteq> []" "p \<in> files fs" "p \<notin> locked fs"
  shows "cleanup_temp p fs = (fs\<lparr>files := files fs - {p}\<rparr>, [Unlink p])"
  using assms by (simp add: cleanup_temp_def unlinkSync_def)

lemma append_log_no_unlink: "filter is_unlink (append_log fs e) = []"
  by (simp add: append_log_def split: option.splits)

lemma upload_handler_redacts:
  "fst (upload_handler env clk (Inl e1) req fs) = fst (upload_handler env clk (Inl e2) req fs)"
  by (simp add: upload_handler_def Let_def split_def split: option.splits)

text \<open>Whatever the disk and the outcome of the upload, the Cloudinary upload handler
  calls \<^verbatim>\<open>unlink\<close> at most once.\<close>

lemma cleanup_temp_unlinks:
  "snd (cleanup_temp p fs) = [] \<or> snd (cleanup_temp p fs) = [Unlink p]"
  by (simp add: cleanup_temp_def split: sum.splits)

lemma upload_handler_unlinks_at_most_once:
  "length (filter is_unlink (snd (snd (upload_handler env clk remote req fs)))) \<le> 1"
proof (cases "req_file req")
  case None
  then show ?thesis
    by (simp add: upload_handler_def Let_def)
next
  case (Some f)
  then show ?thesis
    using cleanup_temp_unlinks [of "file_path f" fs]
    by (cases remote)
       (auto simp: upload_handler_def Let_def split_def append_log_no_unlink)
qed

lemma cleanup_temp_locked:
  assumes "p \<noteq> []" "p \<in> files fs" "p \<in> locked fs"
  shows "cleanup_temp p fs = (fs, [Unlink p])"
  using assms by (simp add: cleanup_temp_def unlinkSync_def)

lemma cleanup_temp_absent:
  assumes "p = [] \<or> p \<notin> files fs"
  shows "cleanup_temp p fs = (fs, [])"
  using assms by (auto simp: cleanup_temp_def)

text \<open>
  C2, as amended. In the Cloudinary upload handler, when the remote upload fails (for a
  request with a guest name and a file) the response is 500 with \<^verbatim>\<open>success:false\<close>,
  the correlation id made from the clock and the random source, and the fixed message
  followed by that id; it is the same whatever the provider's error is, and whatever
  the disk. The handler calls \<^verbatim>\<open>unlink\<close> at most once. When the temp file is on
  disk and can be removed, it is unlinked exactly once and is gone afterwards. When the
  operating system refuses the removal, the one \<^verbatim>\<open>unlink\<close> fails, its error is
  swallowed and the file stays. When the temp file is not on disk, the handler does not
  call \<^verbatim>\<open>unlink\<close>.
\<close>

theorem upload_failure_cleanup:
  assumes "truthy (body_guestName req)" "req_file req = Some f"
    and "upload_handler env clk (Inl err) req fs = (res, fs', effects)"
  shows "statusCode res = 500
     \<and> body res = JObj [(''success'', JBool False),
          (''error'', JStr (lit ''Error al subir el archivo. Contacta al administrador con el id: ''
                            @ errorId clk)),
          (''id'', JStr (errorId clk))]
     \<and> errorId clk = to_radix 36 (Date_now clk) @ lit ''-''
                        @ take 6 (drop 2 (Math_random_toString36 clk))
     \<and> (\<forall>err'. fst (upload_handler env clk (Inl err') req fs) = res)
     \<and> length (filter is_unlink effects) \<le> 1
     \<and> (file_path f \<noteq> [] \<and> file_path f \<in> files fs \<and> file_path f \<notin> locked fs \<longrightarrow>
           filter is_unlink effects = [Unlink (file_path f)]
           \<and> files fs' = files fs - {file_path f} \<and> file_path f \<notin> files fs')
     \<and> (file_path f \<noteq> [] \<and> file_path f \<in> files fs \<and> file_path f \<in> locked fs \<longrightarrow>
           filter is_unlink effects = [Unlink (file_path f)] \<and> fs' = fs)
     \<and> (file_path f = [] \<or> file_path f \<notin> files fs \<longrightarrow>
           filter is_unlink effects = [] \<and> fs' = fs)"
proof -
  obtain g where g: "body_guestName req = Some g" "g \<noteq> []"
    using assms(1) by (cases "body_guestName req") auto
  have run: "upload_handler env clk (Inl err) req fs =
      (\<lparr>statusCode = 500,
        body = JObj [(''success'', JBool False),
          (''error'', JStr (lit ''Error al subir el archivo. Contacta al administrador con el id: ''
                            @ errorId clk)),
          (''id'', JStr (errorId clk))]\<rparr>,
       fst (cleanup_temp (file_path f) fs),
       CloudinaryUpload (file_path f)
           (or_else (CLOUDINARY_FOLDER env) (lit ''wedding_photos'') @ lit ''/'' @ sanitized g)
         # append_log fs (logEntry env clk req err)
         @ [ConsoleError [lit ''Cloudinary upload error [id='' @ errorId clk @ lit '']:'',
                          or_else (entry_message (logEntry env clk req err)) []]]
         @ snd (cleanup_temp (file_path f) fs))"
    using g assms(2) by (simp add: upload_handler_def Let_def split_def)
  have response: "statusCode res = 500
     \<and> body res = JObj [(''success'', JBool False),
          (''error'', JStr (lit ''Error al subir el archivo. Contacta al administrador con el id: ''
                            @ errorId clk)),
          (''id'', JStr (errorId clk))]"
    using run assms(3) by auto
  have disk: "fs' = fst (cleanup_temp (file_path f) fs)"
    using run assms(3) by simp
  have unlinks: "filter is_unlink effects = snd (cleanup_temp (file_path f) fs)"
    using run assms(3) cleanup_temp_unlinks [of "file_path f" fs]
    by (auto simp: append_log_no_unlink)
  have indep: "fst (upload_handler env clk (Inl err') req fs) = res" for err'
    using upload_handler_redacts [of env clk err' req fs err] assms(3) by simp
  have once: "length (filter is_unlink effects) \<le> 1"
    using unlinks cleanup_temp_unlinks [of "file_path f" fs] by auto
  have removed: "filter is_unlink effects = [Unlink (file_path f)]
           \<and> files fs' = files fs - {file_path f} \<and> file_path f \<notin> files fs'"
    if "file_path f \<noteq> []" "file_path f \<in> files fs" "file_path f \<notin> locked fs"
    using cleanup_temp_removes [OF that] by (simp add: unlinks disk)
  have refused: "filter is_unlink effects = [Unlink (file_path f)] \<and> fs' = fs"
    if "file_path f \<noteq> []" "file_path f \<in> files fs" "file_path f \<in> locked fs"
    using cleanup_temp_locked [OF that] by (simp add: unlinks disk)
  have absent: "filter is_unlink effects = [] \<and> fs' = fs"
    if "file_path f = [] \<or> file_path f \<notin> files fs"
    using cleanup_temp_absent [OF that] by (simp add: unlinks disk)
  have id: "errorId clk = to_radix 36 (Date_now clk) @ lit ''-''
                        @ take 6 (drop 2 (Math_random_toString36 clk))"
    by (simp add: errorId_def slice_def)
  show ?thesis
    using response id indep once removed refused absent by blast
qed

theorem upload_failure_cleanup_witness:
  "statusCode (fst (upload_handler
      \<lparr>CLOUDINARY_CLOUD_NAME = Some (lit ''demo''), CLOUDINARY_API_KEY = Some (lit ''k1''),
       CLOUDINARY_API_SECRET = Some (lit ''s3''), CLOUDINARY_FOLDER = None,
       MAX_FILE_SIZE_MB_var = None\<rparr>
      \<lparr>Date_now = 71, Date_toISOString = lit ''1970-01-01T00:00:00.071Z'',
       Math_random_toString36 = lit ''0.k3jx9qz1''\<rparr>
      (Inl \<lparr>err_name = None, err_code = None, err_message = Some (lit ''Invalid api_key k1''),
            err_stack = None, err_string = lit ''[object Object]''\<rparr>)
      \<lparr>body_guestName = Some (lit ''Ana''),
       req_file = Some \<lparr>file_path = lit ''uploads/f1'', originalname = lit ''a.jpg'',
                        mimetype = lit ''image/jpeg''\<rparr>\<rparr>
      \<lparr>files = {lit ''uploads/f1''}, locked = {}, append_error = None\<rparr>)) = 500
   \<and> filter is_unlink (snd (snd (upload_handler
      \<lparr>CLOUDINARY_CLOUD_NAME = Some (lit ''demo''), CLOUDINARY_API_KEY = Some (lit ''k1''),
       CLOUDINARY_API_SECRET = Some (lit ''s3''), CLOUDINARY_FOLDER = None,
       MAX_FILE_SIZE_MB_var = None\<rparr>
      \<lparr>Date_now = 71, Date_toISOString = lit ''1970-01-01T00:00:00.071Z'',
       Math_random_toString36 = lit ''0.k3jx9qz1''\<rparr>
      (Inl \<lparr>err_name = None, err_code = None, err_message = Some (lit ''Invalid api_key k1''),
            err_stack = None, err_string = lit ''[object Object]''\<rparr>)
      \<lparr>body_guestName = Some (lit ''Ana''),
       req_file = Some \<lparr>file_path = lit ''uploads/f1'', originalname = lit ''a.jpg'',
                        mimetype = lit ''image/jpeg''\<rparr>\<rparr>
      \<lparr>files = {lit ''uploads/f1''}, locked = {}, append_error = None\<rparr>))) = [Unlink (lit ''uploads/f1'')]
   \<and> files (fst (snd (upload_handler
      \<lparr>CLOUDINARY_CLOUD_NAME = Some (lit ''demo''), CLOUDINARY_API_KEY = Some (lit ''k1''),
       CLOUDINARY_API_SECRET = Some (lit ''s3''), CLOUDINARY_FOLDER = None,
       MAX_FILE_SIZE_MB_var = None\<rparr>
      \<lparr>Date_now = 71, Date_toISOString = lit ''1970-01-01T00:00:00.071Z'',
       Math_random_toString36 = lit ''0.k3jx9qz1''\<rparr>
      (Inl \<lparr>err_name = None, err_code = None, err_message = Some (lit ''Invalid api_key k1''),
            err_stack = None, err_string = lit ''[object Object]''\<rparr>)
      \<lparr>body_guestName = Some (lit ''Ana''),
       req_file = Some \<lparr>file_path = lit ''uploads/f1'', originalname = lit ''a.jpg'',
                        mimetype = lit ''image/jpeg''\<rparr>\<rparr>
      \<lparr>files = {lit ''uploads/f1''}, locked = {}, append_error = None\<rparr>))) = {}
   \<and> field (body (fst (upload_handler
      \<lparr>CLOUDINARY_CLOUD_NAME = Some (lit ''demo''), CLOUDINARY_API_KEY = Some (lit ''k1''),
       CLOUDINARY_API_SECRET = Some (lit ''s3''), CLOUDINARY_FOLDER = None,
       MAX_FILE_SIZE_MB_var = None\<rparr>
      \<lparr>Date_now = 71, Date_toISOString = lit ''1970-01-01T00:00:00.071Z'',
       Math_random_toString36 = lit ''0.k3jx9qz1''\<rparr>
      (Inl \<lparr>err_name = None, err_code = None, err_message = Some (lit ''Invalid api_key k1''),
            err_stack = None, err_string = lit ''[object Object]''\<rparr>)
      \<lparr>body_guestName = Some (lit ''Ana''),
       req_file = Some \<lparr>file_path = lit ''uploads/f1'', originalname = lit ''a.jpg'',
                        mimetype = lit ''image/jpeg''\<rparr>\<rparr>
      \<lparr>files = {lit ''uploads/f1''}, locked = {}, append_error = None\<rparr>))) ''id'' = Some (JStr (lit ''1z-k3jx9q''))
   \<and> fst (snd (upload_handler
      \<lparr>CLOUDINARY_CLOUD_NAME = Some (lit ''demo''), CLOUDINARY_API_KEY = Some (lit ''k1''),
       CLOUDINARY_API_SECRET = Some (lit ''s3''), CLOUDINARY_FOLDER = None,
       MAX_FILE_SIZE_MB_var = None\<rparr>
      \<lparr>Date_now = 71, Date_toISOString = lit ''1970-01-01T00:00:00.071Z'',
       Math_random_toString36 = lit ''0.k3jx9qz1''\<rparr>
      (Inl \<lparr>err_name = None, err_code = None, err_message = Some (lit ''Invalid api_key k1''),
            err_stack = None, err_string = lit ''[object Object]''\<rparr>)
      \<lparr>body_guestName = Some (lit ''Ana''),
       req_file = Some \<lparr>file_path = lit ''uploads/f1'', originalname = lit ''a.jpg'',
                        mimetype = lit ''image/jpeg''\<rparr>\<rparr>
      \<lparr>files = {lit ''uploads/f1''}, locked = {lit ''uploads/f1''}, append_error = None\<rparr>))
       = \<lparr>files = {lit ''uploads/f1''}, locked = {lit ''uploads/f1''}, append_error = None\<rparr>
   \<and> filter is_unlink (snd (snd (upload_handler
      \<lparr>CLOUDINARY_CLOUD_NAME = Some (lit ''demo''), CLOUDINARY_API_KEY = Some (lit ''k1''),
       CLOUDINARY_API_SECRET = Some (lit ''s3''), CLOUDINARY_FOLDER = None,
       MAX_FILE_SIZE_MB_var = None\<rparr>
      \<lparr>Date_now = 71, Date_toISOString = lit ''1970-01-01T00:00:00.071Z'',
       Math_random_toString36 = lit ''0.k3jx9qz1''\<rparr>
      (Inl \<lparr>err_name = None, err_code = None, err_message = Some (lit ''Invalid api_key k1''),
            err_stack = None, err_string = lit ''[object Object]''\<rparr>)
      \<lparr>body_guestName = Some (lit ''Ana''),
       req_file = Some \<lparr>file_path = lit ''uploads/f1'', originalname = lit ''a.jpg'',
                        mimetype = lit ''image/jpeg''\<rparr>\<rparr>
      \<lparr>files = {}, locked = {}, append_error = None\<rparr>))) = []"
  using upload_failure_cleanup [of
      "\<lparr>body_guestName = Some (lit ''Ana''),
       req_file = Some \<lparr>file_path = lit ''uploads/f1'', originalname = lit ''a.jpg'',
                        mimetype = lit ''image/jpeg''\<rparr>\<rparr>"
      "\<lparr>file_path = lit ''uploads/f1'', originalname = lit ''a.jpg'', mimetype = lit ''image/jpeg''\<rparr>"
      "\<lparr>CLOUDINARY_CLOUD_NAME = Some (lit ''demo''), CLOUDINARY_API_KEY = Some (lit ''k1''),
       CLOUDINARY_API_SECRET = Some (lit ''s3''), CLOUDINARY_FOLDER = None,
       MAX_FILE_SIZE_MB_var = None\<rparr>"
      "\<lparr>Date_now = 71, Date_toISOString = lit ''1970-01-01T00:00:00.071Z'',
       Math_random_toString36 = lit ''0.k3jx9qz1''\<rparr>"
      "\<lparr>err_name = None, err_code = None, err_message = Some (lit ''Invalid api_key k1''),
            err_stack = None, err_string = lit ''[object Object]''\<rparr>"
      "\<lparr>files = {lit ''uploads/f1''}, locked = {}, append_error = None\<rparr>"
      "fst (upload_handler
      \<lparr>CLOUDINARY_CLOUD_NAME = Some (lit ''demo''), CLOUDINARY_API_KEY = Some (lit ''k1''),
       CLOUDINARY_API_SECRET = Some (lit ''s3''), CLOUDINARY_FOLDER = None,
       MAX_FILE_SIZE_MB_var = None\<rparr>
      \<lparr>Date_now = 71, Date_toISOString = lit ''1970-01-01T00:00:00.071Z'',
       Math_random_toString36 = lit ''0.k3jx9qz1''\<rparr>
      (Inl \<lparr>err_name = None, err_code = None, err_message = Some (lit ''Invalid api_key k1''),
            err_stack = None, err_string = lit ''[object Object]''\<rparr>)
      \<lparr>body_guestName = Some (lit ''Ana''),
       req_file = Some \<lparr>file_path = lit ''uploads/f1'', originalname = lit ''a.jpg'',
                        mimetype = lit ''image/jpeg''\<rparr>\<rparr>
      \<lparr>files = {lit ''uploads/f1''}, locked = {}, append_error = None\<rparr>)"
      "fst (snd (upload_handler
      \<lparr>CLOUDINARY_CLOUD_NAME = Some (lit ''demo''), CLOUDINARY_API_KEY = Some (lit ''k1''),
       CLOUDINARY_API_SECRET = Some (lit ''s3''), CLOUDINARY_FOLDER = None,
       MAX_FILE_SIZE_MB_var = None\<rparr>
      \<lparr>Date_now = 71, Date_toISOString = lit ''1970-01-01T00:00:00.071Z'',
       Math_random_toString36 = lit ''0.k3jx9qz1''\<rparr>
      (Inl \<lparr>err_name = None, err_code = None, err_message = Some (lit ''Invalid api_key k1''),
            err_stack = None, err_string = lit ''[object Object]''\<rparr>)
      \<lparr>body_guestName = Some (lit ''Ana''),
       req_file = Some \<lparr>file_path = lit ''uploads/f1'', originalname = lit ''a.jpg'',
                        mimetype = lit ''image/jpeg''\<rparr>\<rparr>
      \<lparr>files = {lit ''uploads/f1''}, locked = {}, append_error = None\<rparr>))"
      "snd (snd (upload_handler
      \<lparr>CLOUDINARY_CLOUD_NAME = Some (lit ''demo''), CLOUDINARY_API_KEY = Some (lit ''k1''),
       CLOUDINARY_API_SECRET = Some (lit ''s3''), CLOUDINARY_FOLDER = None,
       MAX_FILE_SIZE_MB_var = None\<rparr>
      \<lparr>Date_now = 71, Date_toISOString = lit ''1970-01-01T00:00:00.071Z'',
       Math_random_toString36 = lit ''0.k3jx9qz1''\<rparr>
      (Inl \<lparr>err_name = None, err_code = None, err_message = Some (lit ''Invalid api_key k1''),
            err_stack = None, err_string = lit ''[object Object]''\<rparr>)
      \<lparr>body_guestName = Some (lit ''Ana''),
       req_file = Some \<lparr>file_path = lit ''uploads/f1'', originalname = lit ''a.jpg'',
                        mimetype = lit ''image/jpeg''\<rparr>\<rparr>
      \<lparr>files = {lit ''uploads/f1''}, locked = {}, append_error = None\<rparr>))"]
    upload_failure_cleanup [of
      "\<lparr>body_guestName = Some (lit ''Ana''),
       req_file = Some \<lparr>file_path = lit ''uploads/f1'', originalname = lit ''a.jpg'',
                        mimetype = lit ''image/jpeg''\<rparr>\<rparr>"
      "\<lparr>file_path = lit ''uploads/f1'', originalname = lit ''a.jpg'', mimetype = lit ''image/jpeg''\<rparr>"
      "\<lparr>CLOUDINARY_CLOUD_NAME = Some (lit ''demo''), CLOUDINARY_API_KEY = Some (lit ''k1''),
       CLOUDINARY_API_SECRET = Some (lit ''s3''), CLOUDINARY_FOLDER = None,
       MAX_FILE_SIZE_MB_var = None\<rparr>"
      "\<lparr>Date_now = 71, Date_toISOString = lit ''1970-01-01T00:00:00.071Z'',
       Math_random_toString36 = lit ''0.k3jx9qz1''\<rparr>"
      "\<lparr>err_name = None, err_code = None, err_message = Some (lit ''Invalid api_key k1''),
            err_stack = None, err_string = lit ''[object Object]''\<rparr>"
      "\<lparr>files = {lit ''uploads/f1''}, locked = {lit ''uploads/f1''}, append_error = None\<rparr>"
      "fst (upload_handler
      \<lparr>CLOUDINARY_CLOUD_NAME = Some (lit ''demo''), CLOUDINARY_API_KEY = Some (lit ''k1''),
       CLOUDINARY_API_SECRET = Some (lit ''s3''), CLOUDINARY_FOLDER = None,
       MAX_FILE_SIZE_MB_var = None\<rparr>
      \<lparr>Date_now = 71, Date_toISOString = lit ''1970-01-01T00:00:00.071Z'',
       Math_random_toString36 = lit ''0.k3jx9qz1''\<rparr>
      (Inl \<lparr>err_name = None, err_code = None, err_message = Some (lit ''Invalid api_key k1''),
            err_stack = None, err_string = lit ''[object Object]''\<rparr>)
      \<lparr>body_guestName = Some (lit ''Ana''),
       req_file = Some \<lparr>file_path = lit ''uploads/f1'', originalname = lit ''a.jpg'',
                        mimetype = lit ''image/jpeg''\<rparr>\<rparr>
      \<lparr>files = {lit ''uploads/f1''}, locked = {lit ''uploads/f1''}, append_error = None\<rparr>)"
      "fst (snd (upload_handler
      \<lparr>CLOUDINARY_CLOUD_NAME = Some (lit ''demo''), CLOUDINARY_API_KEY = Some (lit ''k1''),
       CLOUDINARY_API_SECRET = Some (lit ''s3''), CLOUDINARY_FOLDER = None,
       MAX_FILE_SIZE_MB_var = None\<rparr>
      \<lparr>Date_now = 71, Date_toISOString = lit ''1970-01-01T00:00:00.071Z'',
       Math_random_toString36 = lit ''0.k3jx9qz1''\<rparr>
      (Inl \<lparr>err_name = None, err_code = None, err_message = Some (lit ''Invalid api_key k1''),
            err_stack = None, err_string = lit ''[object Object]''\<rparr>)
      \<lparr>body_guestName = Some (lit ''Ana''),
       req_file = Some \<lparr>file_path = lit ''uploads/f1'', originalname = lit ''a.jpg'',
                        mimetype = lit ''image/jpeg''\<rparr>\<rparr>
      \<lparr>files = {lit ''uploads/f1''}, locked = {lit ''uploads/f1''}, append_error = None\<rparr>))"
      "snd (snd (upload_handler
      \<lparr>CLOUDINARY_CLOUD_NAME = Some (lit ''demo''), CLOUDINARY_API_KEY = Some (lit ''k1''),
       CLOUDINARY_API_SECRET = Some (lit ''s3''), CLOUDINARY_FOLDER = None,
       MAX_FILE_SIZE_MB_var = None\<rparr>
      \<lparr>Date_now = 71, Date_toISOString = lit ''1970-01-01T00:00:00.071Z'',
       Math_random_toString36 = lit ''0.k3jx9qz1''\<rparr>
      (Inl \<lparr>err_name = None, err_code = None, err_message = Some (lit ''Invalid api_key k1''),
            err_stack = None, err_string = lit ''[object Object]''\<rparr>)
      \<lparr>body_guestName = Some (lit ''Ana''),
       req_file = Some \<lparr>file_path = lit ''uploads/f1'', originalname = lit ''a.jpg'',
                        mimetype = lit ''image/jpeg''\<rparr>\<rparr>
      \<lparr>files = {lit ''uploads/f1''}, locked = {lit ''uploads/f1''}, append_error = None\<rparr>))"]
    upload_failure_cleanup [of
      "\<lparr>body_guestName = Some (lit ''Ana''),
       req_file = Some \<lparr>file_path = lit ''uploads/f1'', originalname = lit ''a.jpg'',
                        mimetype = lit ''image/jpeg''\<rparr>\<rparr>"
      "\<lparr>file_path = lit ''uploads/f1'', originalname = lit ''a.jpg'', mimetype = lit ''image/jpeg''\<rparr>"
      "\<lparr>CLOUDINARY_CLOUD_NAME = Some (lit ''demo''), CLOUDINARY_API_KEY = Some (lit ''k1''),
       CLOUDINARY_API_SECRET = Some (lit ''s3''), CLOUDINARY_FOLDER = None,
       MAX_FILE_SIZE_MB_var = None\<rparr>"
      "\<lparr>Date_now = 71, Date_toISOString = lit ''1970-01-01T00:00:00.071Z'',
       Math_random_toString36 = lit ''0.k3jx9qz1''\<rparr>"
      "\<lparr>err_name = None, err_code = None, err_message = Some (lit ''Invalid api_key k1''),
            err_stack = None, err_string = lit ''[object Object]''\<rparr>"
      "\<lparr>files = {}, locked = {}, append_error = None\<rparr>"
      "fst (upload_handler
      \<lparr>CLOUDINARY_CLOUD_NAME = Some (lit ''demo''), CLOUDINARY_API_KEY = Some (lit ''k1''),
       CLOUDINARY_API_SECRET = Some (lit ''s3''), CLOUDINARY_FOLDER = None,
       MAX_FILE_SIZE_MB_var = None\<rparr>
      \<lparr>Date_now = 71, Date_toISOString = lit ''1970-01-01T00:00:00.071Z'',
       Math_random_toString36 = lit ''0.k3jx9qz1''\<rparr>
      (Inl \<lparr>err_name = None, err_code = None, err_message = Some (lit ''Invalid api_key k1''),
            err_stack = None, err_string = lit ''[object Object]''\<rparr>)
      \<lparr>body_guestName = Some (lit ''Ana''),
       req_file = Some \<lparr>file_path = lit ''uploads/f1'', originalname = lit ''a.jpg'',
                        mimetype = lit ''image/jpeg''\<rparr>\<rparr>
      \<lparr>files = {}, locked = {}, append_error = None\<rparr>)"
      "fst (snd (upload_handler
      \<lparr>CLOUDINARY_CLOUD_NAME = Some (lit ''demo''), CLOUDINARY_API_KEY = Some (lit ''k1''),
       CLOUDINARY_API_SECRET = Some (lit ''s3''), CLOUDINARY_FOLDER = None,
       MAX_FILE_SIZE_MB_var = None\<rparr>
      \<lparr>Date_now = 71, Date_toISOString = lit ''1970-01-01T00:00:00.071Z'',
       Math_random_toString36 = lit ''0.k3jx9qz1''\<rparr>
      (Inl \<lparr>err_name = None, err_code = None, err_message = Some (lit ''Invalid api_key k1''),
            err_stack = None, err_string = lit ''[object Object]''\<rparr>)
      \<lparr>body_guestName = Some (lit ''Ana''),
       req_file = Some \<lparr>file_path = lit ''uploads/f1'', originalname = lit ''a.jpg'',
                        mimetype = lit ''image/jpeg''\<rparr>\<rparr>
      \<lparr>files = {}, locked = {}, append_error = None\<rparr>))"
      "snd (snd (upload_handler
      \<lparr>CLOUDINARY_CLOUD_NAME = Some (lit ''demo''), CLOUDINARY_API_KEY = Some (lit ''k1''),
       CLOUDINARY_API_SECRET = Some (lit ''s3''), CLOUDINARY_FOLDER = None,
       MAX_FILE_SIZE_MB_var = None\<rparr>
      \<lparr>Date_now = 71, Date_toISOString = lit ''1970-01-01T00:00:00.071Z'',
       Math_random_toString36 = lit ''0.k3jx9qz1''\<rparr>
      (Inl \<lparr>err_name = None, err_code = None, err_message = Some (lit ''Invalid api_key k1''),
            err_stack = None, err_string = lit ''[object Object]''\<rparr>)
      \<lparr>body_guestName = Some (lit ''Ana''),
       req_file = Some \<lparr>file_path = lit ''uploads/f1'', originalname = lit ''a.jpg'',
                        mimetype = lit ''image/jpeg''\<rparr>\<rparr>
      \<lparr>files = {}, locked = {}, append_error = None\<rparr>))"]
  by (simp add: to_radix.simps digit_char_def lit_def cu_def)

text \<open>
  C2 as stated fails when the operating system refuses the removal: the handler answers
  500, its one \<^verbatim>\<open>unlink\<close> fails, and the temp file is still on disk. It also fails
  when the temp file is already gone: the handler does not call \<^verbatim>\<open>unlink\<close> at all.
\<close>

theorem upload_failure_cleanup_counterexample:
  "statusCode (fst (upload_handler
      \<lparr>CLOUDINARY_CLOUD_NAME = Some (lit ''demo''), CLOUDINARY_API_KEY = Some (lit ''k1''),
       CLOUDINARY_API_SECRET = Some (lit ''s3''), CLOUDINARY_FOLDER = None,
       MAX_FILE_SIZE_MB_var = None\<rparr>
      \<lparr>Date_now = 71, Date_toISOString = lit ''1970-01-01T00:00:00.071Z'',
       Math_random_toString36 = lit ''0.k3jx9qz1''\<rparr>
      (Inl \<lparr>err_name = None, err_code = None, err_message = Some (lit ''Invalid api_key k1''),
            err_stack = None, err_string = lit ''[object Object]''\<rparr>)
      \<lparr>body_guestName = Some (lit ''Ana''),
       req_file = Some \<lparr>file_path = lit ''uploads/f1'', originalname = lit ''a.jpg'',
                        mimetype = lit ''image/jpeg''\<rparr>\<rparr>
      \<lparr>files = {lit ''uploads/f1''}, locked = {lit ''uploads/f1''}, append_error = None\<rparr>)) = 500
   \<and> lit ''uploads/f1'' \<in> files (fst (snd (upload_handler
      \<lparr>CLOUDINARY_CLOUD_NAME = Some (lit ''demo''), CLOUDINARY_API_KEY = Some (lit ''k1''),
       CLOUDINARY_API_SECRET = Some (lit ''s3''), CLOUDINARY_FOLDER = None,
       MAX_FILE_SIZE_MB_var = None\<rparr>
      \<lparr>Date_now = 71, Date_toISOString = lit ''1970-01-01T00:00:00.071Z'',
       Math_random_toString36 = lit ''0.k3jx9qz1''\<rparr>
      (Inl \<lparr>err_name = None, err_code = None, err_message = Some (lit ''Invalid api_key k1''),
            err_stack = None, err_string = lit ''[object Object]''\<rparr>)
      \<lparr>body_guestName = Some (lit ''Ana''),
       req_file = Some \<lparr>file_path = lit ''uploads/f1'', originalname = lit ''a.jpg'',
                        mimetype = lit ''image/jpeg''\<rparr>\<rparr>
      \<lparr>files = {lit ''uploads/f1''}, locked = {lit ''uploads/f1''}, append_error = None\<rparr>)))
   \<and> filter is_unlink (snd (snd (upload_handler
      \<lparr>CLOUDINARY_CLOUD_NAME = Some (lit ''demo''), CLOUDINARY_API_KEY = Some (lit ''k1''),
       CLOUDINARY_API_SECRET = Some (lit ''s3''), CLOUDINARY_FOLDER = None,
       MAX_FILE_SIZE_MB_var = None\<rparr>
      \<lparr>Date_now = 71, Date_toISOString = lit ''1970-01-01T00:00:00.071Z'',
       Math_random_toString36 = lit ''0.k3jx9qz1''\<rparr>
      (Inl \<lparr>err_name = None, err_code = None, err_message = Some (lit ''Invalid api_key k1''),
            err_stack = None, err_string = lit ''[object Object]''\<rparr>)
      \<lparr>body_guestName = Some (lit ''Ana''),
       req_file = Some \<lparr>file_path = lit ''uploads/f1'', originalname = lit ''a.jpg'',
                        mimetype = lit ''image/jpeg''\<rparr>\<rparr>
      \<lparr>files = {}, locked = {}, append_error = None\<rparr>))) = []"
  by (simp add: upload_handler_def cleanup_temp_def unlinkSync_def append_log_def Let_def
        lit_def cu_def)

subsection \<open>The Drive variant\<close>

lemma find_or_create_fails:
  "(if ids = [] then created else Inr (hd ids)) = Inl e \<Longrightarrow>
     fst (find_or_create (Inr ids) created a b) = Inl e"
  by (cases ids) (simp_all add: find_or_create_def)

lemma find_or_create_ok:
  "(if ids = [] then created else Inr (hd ids)) = Inr i \<Longrightarrow>
     fst (find_or_create (Inr ids) created a b) = Inr i"
  by (cases ids) (simp_all add: find_or_create_def)

lemma find_or_create_listing_fails:
  "fst (find_or_create (Inl e) created a b) = Inl e"
  by (simp add: find_or_create_def)

lemma drive_try_throws:
  assumes "truthy (body_guestName req)" "req_file req = Some f"
    and "first_failure remote = Some e"
  shows "fst (drive_try clk remote req fs) = Inl e"
  using assms
  by (auto simp: drive_try_def first_failure_def Let_def split_def
        find_or_create_fails find_or_create_ok find_or_create_listing_fails
      split: sum.splits)


text \<open>
  C7. In the Drive upload handler (OAuth configured, guest name and file present), when
  a call to the remote store fails the response is 500 with \<^verbatim>\<open>success:false\<close> and
  its \<^verbatim>\<open>error\<close> is the message of the error that the call threw. The Cloudinary
  handler's response, in contrast, is the same for every provider error.
\<close>

theorem drive_failure_surfaces_message:
  assumes "truthy (body_guestName req)" "req_file req = Some f"
    and "first_failure remote = Some e"
  shows "statusCode (fst (drive_upload_handler True clk remote req fs)) = 500
     \<and> field (body (fst (drive_upload_handler True clk remote req fs))) ''success''
          = Some (JBool False)
     \<and> field (body (fst (drive_upload_handler True clk remote req fs))) ''error''
          = map_option JStr (err_message e)
     \<and> (\<forall>e'. fst (upload_handler env clk (Inl e') req fs)
                = fst (upload_handler env clk (Inl e) req fs))"
proof -
  obtain tempPath fs1 calls where "drive_try clk remote req fs = (Inl e, tempPath, fs1, calls)"
    using drive_try_throws [OF assms, of clk fs] by (metis prod.collapse)
  then have "fst (drive_upload_handler True clk remote req fs)
               = \<lparr>statusCode = 500, body = drive_error_body e\<rparr>"
    by (simp add: drive_upload_handler_def split_def Let_def)
  then show ?thesis
    using upload_handler_redacts [of env clk _ req fs e]
    by (simp add: drive_error_body_def split: option.splits)
qed

theorem drive_failure_surfaces_message_witness:
  "statusCode (fst (drive_upload_handler True \<lparr>Date_now = 71, Date_toISOString = lit ''1970-01-01T00:00:00.071Z'',
       Math_random_toString36 = lit ''0.k3jx9qz1''\<rparr>
      \<lparr>list_main = Inr [lit ''m1''], create_main = Inr (lit ''m2''),
       list_guest = Inr [], create_guest = Inr (lit ''g1''),
       create_file = Inl \<lparr>err_name = Some (lit ''Error''), err_code = None,
         err_message = Some (lit ''quota exceeded''), err_stack = None,
         err_string = lit ''Error: quota exceeded''\<rparr>\<rparr>
      \<lparr>body_guestName = Some (lit ''Ana''),
       req_file = Some \<lparr>file_path = lit ''uploads/f1'', originalname = lit ''a.jpg'',
                        mimetype = lit ''image/jpeg''\<rparr>\<rparr>
      \<lparr>files = {lit ''uploads/f1''}, locked = {}, append_error = None\<rparr>)) = 500
   \<and> field (body (fst (drive_upload_handler True \<lparr>Date_now = 71, Date_toISOString = lit ''1970-01-01T00:00:00.071Z'',
       Math_random_toString36 = lit ''0.k3jx9qz1''\<rparr>
      \<lparr>list_main = Inr [lit ''m1''], create_main = Inr (lit ''m2''),
       list_guest = Inr [], create_guest = Inr (lit ''g1''),
       create_file = Inl \<lparr>err_name = Some (lit ''Error''), err_code = None,
         err_message = Some (lit ''quota exceeded''), err_stack = None,
         err_string = lit ''Error: quota exceeded''\<rparr>\<rparr>
      \<lparr>body_guestName = Some (lit ''Ana''),
       req_file = Some \<lparr>file_path = lit ''uploads/f1'', originalname = lit ''a.jpg'',
                        mimetype = lit ''image/jpeg''\<rparr>\<rparr>
      \<lparr>files = {lit ''uploads/f1''}, locked = {}, append_error = None\<rparr>))) ''error'' = Some (JStr (lit ''quota exceeded''))"
  using drive_failure_surfaces_message [of
      "\<lparr>body_guestName = Some (lit ''Ana''),
       req_file = Some \<lparr>file_path = lit ''uploads/f1'', originalname = lit ''a.jpg'',
                        mimetype = lit ''image/jpeg''\<rparr>\<rparr>"
      "\<lparr>file_path = lit ''uploads/f1'', originalname = lit ''a.jpg'', mimetype = lit ''image/jpeg''\<rparr>"
      "\<lparr>list_main = Inr [lit ''m1''], create_main = Inr (lit ''m2''),
       list_guest = Inr [], create_guest = Inr (lit ''g1''),
       create_file = Inl \<lparr>err_name = Some (lit ''Error''), err_code = None,
         err_message = Some (lit ''quota exceeded''), err_stack = None,
         err_string = lit ''Error: quota exceeded''\<rparr>\<rparr>"
      "\<lparr>err_name = Some (lit ''Error''), err_code = None,
         err_message = Some (lit ''quota exceeded''), err_stack = None,
         err_string = lit ''Error: quota exceeded''\<rparr>"
      "\<lparr>Date_now = 71, Date_toISOString = lit ''1970-01-01T00:00:00.071Z'',
       Math_random_toString36 = lit ''0.k3jx9qz1''\<rparr>"
      "\<lparr>files = {lit ''uploads/f1''}, locked = {}, append_error = None\<rparr>"
      "\<lparr>CLOUDINARY_CLOUD_NAME = None, CLOUDINARY_API_KEY = None,
       CLOUDINARY_API_SECRET = None, CLOUDINARY_FOLDER = None, MAX_FILE_SIZE_MB_var = None\<rparr>"]
  by (simp add: first_failure_def lit_def)

section \<open>Requests without a file\<close>

text \<open>
  C5, as amended. A request without a file makes no call to the remote store in either
  variant. The Cloudinary upload handler answers it with 400; the Drive upload handler
  answers it with 400 when OAuth is configured and with 500 when it is not.
\<close>

theorem missing_file_no_remote_call:
  assumes "req_file req = None"
  shows "statusCode (fst (upload_handler env clk remote req fs)) = 400
     \<and> filter is_remote_call (snd (snd (upload_handler env clk remote req fs))) = []
     \<and> statusCode (fst (drive_upload_handler oAuth2Client clk dremote req fs))
          = (if oAuth2Client then 400 else 500)
     \<and> filter is_remote_call (snd (snd (drive_upload_handler oAuth2Client clk dremote req fs))) = []"
  using assms
  by (simp add: upload_handler_def drive_upload_handler_def drive_try_def Let_def)

theorem missing_file_no_remote_call_witness:
  "statusCode (fst (upload_handler \<lparr>CLOUDINARY_CLOUD_NAME = Some (lit ''demo''), CLOUDINARY_API_KEY = Some (lit ''k1''),
       CLOUDINARY_API_SECRET = Some (lit ''s3''), CLOUDINARY_FOLDER = None,
       MAX_FILE_SIZE_MB_var = None\<rparr>
      \<lparr>Date_now = 71, Date_toISOString = lit ''1970-01-01T00:00:00.071Z'',
       Math_random_toString36 = lit ''0.k3jx9qz1''\<rparr>
      (Inr \<lparr>public_id = lit ''p'', secure_url = lit ''u''\<rparr>)
      \<lparr>body_guestName = Some (lit ''Ana''), req_file = None\<rparr>
      \<lparr>files = {}, locked = {}, append_error = None\<rparr>)) = 400
   \<and> statusCode (fst (drive_upload_handler True \<lparr>Date_now = 71, Date_toISOString = lit ''1970-01-01T00:00:00.071Z'',
       Math_random_toString36 = lit ''0.k3jx9qz1''\<rparr>
      \<lparr>list_main = Inr [], create_main = Inr (lit ''m1''),
       list_guest = Inr [], create_guest = Inr (lit ''g1''), create_file = Inr JNull\<rparr>
      \<lparr>body_guestName = Some (lit ''Ana''), req_file = None\<rparr>
      \<lparr>files = {}, locked = {}, append_error = None\<rparr>)) = 400"
  using missing_file_no_remote_call [of
      "\<lparr>body_guestName = Some (lit ''Ana''), req_file = None\<rparr>"
      "\<lparr>CLOUDINARY_CLOUD_NAME = Some (lit ''demo''), CLOUDINARY_API_KEY = Some (lit ''k1''),
       CLOUDINARY_API_SECRET = Some (lit ''s3''), CLOUDINARY_FOLDER = None,
       MAX_FILE_SIZE_MB_var = None\<rparr>"
      "\<lparr>Date_now = 71, Date_toISOString = lit ''1970-01-01T00:00:00.071Z'',
       Math_random_toString36 = lit ''0.k3jx9qz1''\<rparr>"
      "Inr \<lparr>public_id = lit ''p'', secure_url = lit ''u''\<rparr>"
      "\<lparr>files = {}, locked = {}, append_error = None\<rparr>"
      True
      "\<lparr>list_main = Inr [], create_main = Inr (lit ''m1''),
       list_guest = Inr [], create_guest = Inr (lit ''g1''), create_file = Inr JNull\<rparr>"]
  by simp

text \<open>
  C5 as stated fails in the Drive upload handler: without an OAuth client, a request
  with no file is answered with 500.
\<close>

theorem drive_unconfigured_counterexample:
  "req_file \<lparr>body_guestName = Some (lit ''Ana''), req_file = None\<rparr> = None
   \<and> statusCode (fst (drive_upload_handler False \<lparr>Date_now = 71, Date_toISOString = lit ''1970-01-01T00:00:00.071Z'',
       Math_random_toString36 = lit ''0.k3jx9qz1''\<rparr>
      \<lparr>list_main = Inr [], create_main = Inr (lit ''m1''),
       list_guest = Inr [], create_guest = Inr (lit ''g1''), create_file = Inr JNull\<rparr>
      \<lparr>body_guestName = Some (lit ''Ana''), req_file = None\<rparr>
      \<lparr>files = {}, locked = {}, append_error = None\<rparr>)) \<noteq> 400"
  by (simp add: drive_upload_handler_def)

section \<open>Errors of the multipart layer\<close>

lemma digit_char_decimal:
  assumes "d < 10"
  shows "unat (digit_char d) = 48 + d"
proof -
  have "unat (digit_char d) = (48 + d) mod 2 ^ LENGTH(16)"
    using assms by (simp only: digit_char_def if_True unat_of_nat)
  then show ?thesis
    using assms by simp
qed

lemma digit_char_is_digit: "d < 10 \<Longrightarrow> is_digit (digit_char d)"
  using digit_char_decimal [of d]
  by (simp add: is_digit_def in_range_def cu_def word_le_nat_alt)

lemma is_digit_not_white_space: "is_digit c \<Longrightarrow> \<not> is_white_space c"
  unfolding is_digit_def is_white_space_def in_range_def cu_def
  by (auto simp: word_le_nat_alt)

lemma is_digit_not_sign: "is_digit c \<Longrightarrow> c \<noteq> cu CHR ''-'' \<and> c \<noteq> cu CHR ''+''"
  unfolding is_digit_def in_range_def cu_def
  by (auto simp: word_le_nat_alt)

lemma digits_value_snoc:
  "digits_value acc (ds @ [d]) = digits_value acc ds * 10 + (unat d - 48)"
  by (induction ds arbitrary: acc) simp_all

lemma to_radix_decimal_digits: "c \<in> set (to_radix 10 n) \<Longrightarrow> is_digit c"
proof (induction "10::nat" n arbitrary: c rule: to_radix.induct)
  case (1 n)
  show ?case
  proof (cases "n < 10")
    case True
    with "1.prems" show ?thesis
      by (simp add: to_radix.simps [of 10 n] digit_char_is_digit)
  next
    case False
    with "1.prems" "1.hyps" show ?thesis
      by (auto simp: to_radix.simps [of 10 n] digit_char_is_digit)
  qed
qed

lemma to_radix_nonempty: "to_radix r n \<noteq> []"
  by (simp add: to_radix.simps [of r n])

lemma digits_value_to_radix: "digits_value 0 (to_radix 10 n) = n"
proof (induction "10::nat" n rule: to_radix.induct)
  case (1 n)
  show ?case
  proof (cases "n < 10")
    case True
    then show ?thesis
      by (simp add: to_radix.simps [of 10 n] digit_char_decimal)
  next
    case False
    with "1.hyps" show ?thesis
      by (simp add: to_radix.simps [of 10 n] digits_value_snoc digit_char_decimal)
  qed
qed

lemma parseInt10_decimal: "parseInt10 (to_radix 10 n) = to_number (int n)"
proof -
  let ?s = "to_radix 10 n"
  have digits: "\<And>c. c \<in> set ?s \<Longrightarrow> is_digit c"
    by (rule to_radix_decimal_digits)
  have ne: "?s \<noteq> []"
    by (rule to_radix_nonempty)
  then have "hd ?s \<in> set ?s"
    by simp
  then have first: "is_digit (hd ?s)"
    by (rule digits)
  have skip: "dropWhile is_white_space ?s = ?s"
    using ne is_digit_not_white_space [OF first] by (cases ?s) simp_all
  have all: "takeWhile is_digit ?s = ?s"
    using digits by (simp add: takeWhile_eq_all_conv)
  show ?thesis
    using ne is_digit_not_sign [OF first]
    by (simp add: parseInt10_def skip all digits_value_to_radix)
qed

lemma MAX_FILE_SIZE_MB_decimal:
  assumes "MAX_FILE_SIZE_MB_var env = Some (to_radix 10 n)"
  shows "num_to_string double_text (MAX_FILE_SIZE_MB env)
           = (if int n \<le> 2 ^ 53 then to_radix 10 n else double_text (int n))"
proof -
  have "MAX_FILE_SIZE_MB env = to_number (int n)"
    using assms by (simp add: MAX_FILE_SIZE_MB_def to_radix_nonempty parseInt10_decimal)
  then show ?thesis
    by (simp add: to_number_def)
qed

text \<open>
  C6. The error middleware of the Cloudinary server answers a multer error whose code
  is \<^verbatim>\<open>LIMIT_FILE_SIZE\<close> with 413 and a message that ends with the configured
  \<^verbatim>\<open>MAX_FILE_SIZE_MB\<close>, as JavaScript prints that number, and \<^verbatim>\<open>MB\<close>, and every
  other multer error with 400; both bodies carry \<^verbatim>\<open>success:false\<close>. When the
  environment variable holds the decimal numeral of a number up to \<open>2^53\<close> the
  message shows that numeral; beyond \<open>2^53\<close> it shows the text of the rounded double;
  when the variable is unset it shows 50.
\<close>

theorem multer_errors_mapped:
  assumes "err_name err = Some (lit ''MulterError'')"
  shows "(err_code err = Some (lit ''LIMIT_FILE_SIZE'') \<longrightarrow>
            multer_error_middleware double_text env err =
              Responded \<lparr>statusCode = 413,
                body = JObj [(''success'', JBool False),
                  (''error'', JStr (too_large_prefix
                                     @ num_to_string double_text (MAX_FILE_SIZE_MB env)
                                     @ lit '' MB''))]\<rparr>)
     \<and> (err_code err \<noteq> Some (lit ''LIMIT_FILE_SIZE'') \<longrightarrow>
            multer_error_middleware double_text env err =
              Responded \<lparr>statusCode = 400,
                body = JObj [(''success'', JBool False),
                  (''error'', JStr (lit ''Error en la carga del archivo: '' @ message_text err))]\<rparr>)
     \<and> (\<forall>n. int n \<le> 2 ^ 53 \<longrightarrow> MAX_FILE_SIZE_MB_var env = Some (to_radix 10 n) \<longrightarrow>
            num_to_string double_text (MAX_FILE_SIZE_MB env) = to_radix 10 n)
     \<and> (\<forall>n. 2 ^ 53 < int n \<longrightarrow> MAX_FILE_SIZE_MB_var env = Some (to_radix 10 n) \<longrightarrow>
            num_to_string double_text (MAX_FILE_SIZE_MB env) = double_text (int n))
     \<and> (MAX_FILE_SIZE_MB_var env = None \<longrightarrow>
            num_to_string double_text (MAX_FILE_SIZE_MB env) = lit ''50'')"
proof -
  have unset: "num_to_string double_text (parseInt10 (lit ''50'')) = lit ''50''"
    using parseInt10_decimal [of 50]
    by (simp add: to_number_def to_radix.simps digit_char_def lit_def cu_def)
  have default: "MAX_FILE_SIZE_MB_var env = None \<longrightarrow>
                   num_to_string double_text (MAX_FILE_SIZE_MB env) = lit ''50''"
    using unset by (simp add: MAX_FILE_SIZE_MB_def)
  have exact: "\<forall>n. int n \<le> 2 ^ 53 \<longrightarrow> MAX_FILE_SIZE_MB_var env = Some (to_radix 10 n) \<longrightarrow>
                 num_to_string double_text (MAX_FILE_SIZE_MB env) = to_radix 10 n"
    by (simp add: MAX_FILE_SIZE_MB_decimal)
  have rounded: "\<forall>n. 2 ^ 53 < int n \<longrightarrow> MAX_FILE_SIZE_MB_var env = Some (to_radix 10 n) \<longrightarrow>
                   num_to_string double_text (MAX_FILE_SIZE_MB env) = double_text (int n)"
    by (simp add: MAX_FILE_SIZE_MB_decimal)
  have mapped: "multer_error_middleware double_text env err =
      (if err_code err = Some (lit ''LIMIT_FILE_SIZE'')
       then Responded \<lparr>statusCode = 413,
              body = JObj [(''success'', JBool False),
                (''error'', JStr (too_large_prefix
                                   @ num_to_string double_text (MAX_FILE_SIZE_MB env)
                                   @ lit '' MB''))]\<rparr>
       else Responded \<lparr>statusCode = 400,
              body = JObj [(''success'', JBool False),
                (''error'', JStr (lit ''Error en la carga del archivo: '' @ message_text err))]\<rparr>)"
    using assms by (simp add: multer_error_middleware_def)
  show ?thesis
    using default exact rounded by (simp add: mapped)
qed

theorem multer_errors_mapped_witness:
  "multer_error_middleware (\<lambda>v. lit ''Infinity'')
      \<lparr>CLOUDINARY_CLOUD_NAME = None, CLOUDINARY_API_KEY = None,
       CLOUDINARY_API_SECRET = None, CLOUDINARY_FOLDER = None, MAX_FILE_SIZE_MB_var = None\<rparr>
      \<lparr>err_name = Some (lit ''MulterError''), err_code = Some (lit ''LIMIT_FILE_SIZE''),
       err_message = Some (lit ''File too large''), err_stack = None,
       err_string = lit ''MulterError: File too large''\<rparr>
    = Responded \<lparr>statusCode = 413,
        body = JObj [(''success'', JBool False),
          (''error'', JStr (too_large_prefix @ lit ''50 MB''))]\<rparr>
   \<and> multer_error_middleware (\<lambda>v. lit ''Infinity'')
      \<lparr>CLOUDINARY_CLOUD_NAME = None, CLOUDINARY_API_KEY = None,
       CLOUDINARY_API_SECRET = None, CLOUDINARY_FOLDER = None, MAX_FILE_SIZE_MB_var = Some (lit ''25'')\<rparr>
      \<lparr>err_name = Some (lit ''MulterError''), err_code = Some (lit ''LIMIT_FILE_SIZE''),
       err_message = Some (lit ''File too large''), err_stack = None,
       err_string = lit ''MulterError: File too large''\<rparr>
    = Responded \<lparr>statusCode = 413,
        body = JObj [(''success'', JBool False),
          (''error'', JStr (too_large_prefix @ lit ''25 MB''))]\<rparr>
   \<and> multer_error_middleware (\<lambda>v. lit ''Infinity'')
      \<lparr>CLOUDINARY_CLOUD_NAME = None, CLOUDINARY_API_KEY = None,
       CLOUDINARY_API_SECRET = None, CLOUDINARY_FOLDER = None, MAX_FILE_SIZE_MB_var = Some (lit ''25'')\<rparr>
      \<lparr>err_name = Some (lit ''MulterError''), err_code = Some (lit ''LIMIT_UNEXPECTED_FILE''),
       err_message = Some (lit ''Unexpected field''), err_stack = None,
       err_string = lit ''MulterError: Unexpected field''\<rparr>
    = Responded \<lparr>statusCode = 400,
        body = JObj [(''success'', JBool False),
          (''error'', JStr (lit ''Error en la carga del archivo: Unexpected field''))]\<rparr>"
  using multer_errors_mapped [of
      "\<lparr>err_name = Some (lit ''MulterError''), err_code = Some (lit ''LIMIT_FILE_SIZE''),
       err_message = Some (lit ''File too large''), err_stack = None,
       err_string = lit ''MulterError: File too large''\<rparr>"
      "\<lambda>v. lit ''Infinity''"
      "\<lparr>CLOUDINARY_CLOUD_NAME = None, CLOUDINARY_API_KEY = None,
       CLOUDINARY_API_SECRET = None, CLOUDINARY_FOLDER = None, MAX_FILE_SIZE_MB_var = None\<rparr>"]
    multer_errors_mapped [of
      "\<lparr>err_name = Some (lit ''MulterError''), err_code = Some (lit ''LIMIT_FILE_SIZE''),
       err_message = Some (lit ''File too large''), err_stack = None,
       err_string = lit ''MulterError: File too large''\<rparr>"
      "\<lambda>v. lit ''Infinity''"
      "\<lparr>CLOUDINARY_CLOUD_NAME = None, CLOUDINARY_API_KEY = None,
       CLOUDINARY_API_SECRET = None, CLOUDINARY_FOLDER = None, MAX_FILE_SIZE_MB_var = Some (lit ''25'')\<rparr>"]
    multer_errors_mapped [of
      "\<lparr>err_name = Some (lit ''MulterError''), err_code = Some (lit ''LIMIT_UNEXPECTED_FILE''),
       err_message = Some (lit ''Unexpected field''), err_stack = None,
       err_string = lit ''MulterError: Unexpected field''\<rparr>"
      "\<lambda>v. lit ''Infinity''"
      "\<lparr>CLOUDINARY_CLOUD_NAME = None, CLOUDINARY_API_KEY = None,
       CLOUDINARY_API_SECRET = None, CLOUDINARY_FOLDER = None, MAX_FILE_SIZE_MB_var = Some (lit ''25'')\<rparr>"]
  by (simp add: MAX_FILE_SIZE_MB_def parseInt10_def to_number_def is_white_space_def is_digit_def
        in_range_def to_radix.simps digit_char_def message_text_def Let_def lit_def cu_def)

end
